theory Spec2Isabelle
  imports Main "HOL-Library.Char_ord" "HOL-Library.List_Lexorder" "HOL-Library.Word"
begin

section \<open>Status conditions (pkg/apis/sources/v1alpha1/kinesis_types.go)\<close>

text \<open>
  \<open>KinesisSourceStatus\<close> embeds the duck-typed \<open>Status\<close> (observed generation and a list
  of conditions) and adds \<open>SinkURI\<close>. Every method of the status delegates to the condition
  manager \<open>condSet.Manage(s)\<close> of the vendored package \<open>github.com/knative/pkg/apis/duck/v1alpha1\<close>.
  That package is a dependency and not part of this repository's sources; the manager below
  follows its \<open>condition_set.go\<close> (\<open>SetCondition\<close>, \<open>MarkTrue\<close>, \<open>MarkUnknown\<close>, \<open>MarkFalse\<close>,
  \<open>InitializeConditions\<close>, \<open>IsHappy\<close>), and is checked further down against the expectations of
  the repository's own \<open>kinesis_types_test.go\<close>.

  Two things are left out of a condition: \<open>LastTransitionTime\<close> (wall-clock time; the manager
  keeps the old time when nothing else changes, so it never influences a status, reason or
  message), and the \<open>fmt.Sprintf\<close> of a message format with its arguments: every marking
  operation takes the message already formatted.
\<close>

type_synonym ConditionType = string

datatype ConditionStatus = ConditionTrue | ConditionFalse | ConditionUnknown

datatype ConditionSeverity = ConditionSeverityError | ConditionSeverityWarning | ConditionSeverityInfo

record Condition =
  cond_Type :: ConditionType
  cond_Status :: ConditionStatus
  cond_Severity :: ConditionSeverity
  cond_Reason :: string
  cond_Message :: string

record ConditionSet =
  happy :: ConditionType
  dependents :: "ConditionType list"

definition ConditionReady :: ConditionType where
  "ConditionReady = ''Ready''"

definition KinesisSourceConditionReady :: ConditionType where
  "KinesisSourceConditionReady = ConditionReady"

definition KinesisSourceConditionSinkProvided :: ConditionType where
  "KinesisSourceConditionSinkProvided = ''SinkProvided''"

definition KinesisSourceConditionDeployed :: ConditionType where
  "KinesisSourceConditionDeployed = ''Deployed''"

text \<open>\<open>newConditionSet\<close> keeps the dependents in order, skipping the happy type and duplicates.\<close>

definition newConditionSet :: "ConditionType \<Rightarrow> ConditionType list \<Rightarrow> ConditionSet" where
  "newConditionSet h ds =
     \<lparr>happy = h,
      dependents = foldl (\<lambda>deps d. if d = h \<or> d \<in> set deps then deps else deps @ [d]) [] ds\<rparr>"

definition NewLivingConditionSet :: "ConditionType list \<Rightarrow> ConditionSet" where
  "NewLivingConditionSet ds = newConditionSet ConditionReady ds"

definition condSet :: ConditionSet where
  "condSet = NewLivingConditionSet
     [KinesisSourceConditionReady, KinesisSourceConditionSinkProvided, KinesisSourceConditionDeployed]"

text \<open>\<open>c.IsTrue()\<close>, \<open>c.IsFalse()\<close> on a possibly nil \<open>*Condition\<close>: nil is neither.\<close>

definition IsTrue :: "Condition option \<Rightarrow> bool" where
  "IsTrue c = (case c of None \<Rightarrow> False | Some x \<Rightarrow> cond_Status x = ConditionTrue)"

definition IsFalse :: "Condition option \<Rightarrow> bool" where
  "IsFalse c = (case c of None \<Rightarrow> False | Some x \<Rightarrow> cond_Status x = ConditionFalse)"

text \<open>\<open>GetCondition\<close> returns the first condition of the given type, or nil.\<close>

definition GetCondition :: "Condition list \<Rightarrow> ConditionType \<Rightarrow> Condition option" where
  "GetCondition cs t = find (\<lambda>c. cond_Type c = t) cs"

definition IsHappy :: "ConditionSet \<Rightarrow> Condition list \<Rightarrow> bool" where
  "IsHappy r cs = IsTrue (GetCondition cs (happy r))"

text \<open>
  \<open>SetCondition\<close>: walk the conditions, dropping those of the new condition's type; return
  without any change as soon as one of them equals the new condition (up to the transition
  time); otherwise append the new condition and sort the list by type.
\<close>

definition SetCondition :: "Condition \<Rightarrow> Condition list \<Rightarrow> Condition list" where
  "SetCondition new cs =
     (if new \<in> set cs then cs
      else sort_key cond_Type (filter (\<lambda>c. cond_Type c \<noteq> cond_Type new) cs @ [new]))"

definition isTerminal :: "ConditionSet \<Rightarrow> ConditionType \<Rightarrow> bool" where
  "isTerminal r t = (t \<in> set (dependents r @ [happy r]))"

definition severity :: "ConditionSet \<Rightarrow> ConditionType \<Rightarrow> ConditionSeverity" where
  "severity r t = (if isTerminal r t then ConditionSeverityError else ConditionSeverityInfo)"

definition MarkTrue :: "ConditionSet \<Rightarrow> ConditionType \<Rightarrow> Condition list \<Rightarrow> Condition list" where
  "MarkTrue r t cs =
     (let cs1 = SetCondition \<lparr>cond_Type = t, cond_Status = ConditionTrue, cond_Severity = severity r t,
                              cond_Reason = [], cond_Message = []\<rparr> cs
      in if list_all (\<lambda>d. IsTrue (GetCondition cs1 d)) (dependents r)
         then SetCondition \<lparr>cond_Type = happy r, cond_Status = ConditionTrue,
                            cond_Severity = severity r (happy r),
                            cond_Reason = [], cond_Message = []\<rparr> cs1
         else cs1)"

text \<open>
  \<open>MarkFalse\<close> sets the condition, and the happy condition too when the type is a dependent.
\<close>

definition MarkFalse ::
  "ConditionSet \<Rightarrow> ConditionType \<Rightarrow> string \<Rightarrow> string \<Rightarrow> Condition list \<Rightarrow> Condition list" where
  "MarkFalse r t reason message cs =
     foldl (\<lambda>acc ty. SetCondition \<lparr>cond_Type = ty, cond_Status = ConditionFalse,
                                    cond_Severity = severity r ty,
                                    cond_Reason = reason, cond_Message = message\<rparr> acc)
           cs (t # map (\<lambda>_. happy r) (filter (\<lambda>d. d = t) (dependents r)))"

text \<open>
  The loop of \<open>MarkUnknown\<close> over the dependents: a False dependent makes the happy condition
  False (if it is not already) and ends the call; otherwise, once the loop is over, the happy
  condition becomes Unknown if the marked type is a dependent.
\<close>

fun MarkUnknown_loop ::
  "ConditionSet \<Rightarrow> ConditionType \<Rightarrow> string \<Rightarrow> string \<Rightarrow> ConditionType list \<Rightarrow> bool
     \<Rightarrow> Condition list \<Rightarrow> Condition list" where
  "MarkUnknown_loop r t reason message [] isDependent cs =
     (if isDependent
      then SetCondition \<lparr>cond_Type = happy r, cond_Status = ConditionUnknown,
                         cond_Severity = severity r (happy r),
                         cond_Reason = reason, cond_Message = message\<rparr> cs
      else cs)"
| "MarkUnknown_loop r t reason message (d # ds) isDependent cs =
     (if IsFalse (GetCondition cs d)
      then (if \<not> IsFalse (GetCondition cs (happy r))
            then MarkFalse r (happy r) reason message cs else cs)
      else MarkUnknown_loop r t reason message ds (isDependent \<or> d = t) cs)"

definition MarkUnknown ::
  "ConditionSet \<Rightarrow> ConditionType \<Rightarrow> string \<Rightarrow> string \<Rightarrow> Condition list \<Rightarrow> Condition list" where
  "MarkUnknown r t reason message cs =
     MarkUnknown_loop r t reason message (dependents r) False
       (SetCondition \<lparr>cond_Type = t, cond_Status = ConditionUnknown, cond_Severity = severity r t,
                      cond_Reason = reason, cond_Message = message\<rparr> cs)"

definition InitializeCondition :: "ConditionSet \<Rightarrow> ConditionType \<Rightarrow> Condition list \<Rightarrow> Condition list" where
  "InitializeCondition r t cs =
     (case GetCondition cs t of
        None \<Rightarrow> SetCondition \<lparr>cond_Type = t, cond_Status = ConditionUnknown,
                              cond_Severity = severity r t,
                              cond_Reason = [], cond_Message = []\<rparr> cs
      | Some _ \<Rightarrow> cs)"

definition InitializeConditions_impl :: "ConditionSet \<Rightarrow> Condition list \<Rightarrow> Condition list" where
  "InitializeConditions_impl r cs =
     foldl (\<lambda>acc t. InitializeCondition r t acc) cs (dependents r @ [happy r])"

subsection \<open>The status and its methods\<close>

record KinesisSourceStatus =
  ObservedGeneration :: int
  Conditions :: "Condition list"
  SinkURI :: string

definition Status_GetCondition :: "KinesisSourceStatus \<Rightarrow> ConditionType \<Rightarrow> Condition option" where
  "Status_GetCondition s t = GetCondition (Conditions s) t"

definition IsReady :: "KinesisSourceStatus \<Rightarrow> bool" where
  "IsReady s = IsHappy condSet (Conditions s)"

definition InitializeConditions :: "KinesisSourceStatus \<Rightarrow> KinesisSourceStatus" where
  "InitializeConditions s = s\<lparr>Conditions := InitializeConditions_impl condSet (Conditions s)\<rparr>"

definition MarkSink :: "string \<Rightarrow> KinesisSourceStatus \<Rightarrow> KinesisSourceStatus" where
  "MarkSink uri s =
     (let s1 = s\<lparr>SinkURI := uri\<rparr>
      in if length uri > 0
         then s1\<lparr>Conditions := MarkTrue condSet KinesisSourceConditionSinkProvided (Conditions s1)\<rparr>
         else s1\<lparr>Conditions := MarkUnknown condSet KinesisSourceConditionSinkProvided
                                   ''SinkEmpty'' ''Sink has resolved to empty.'' (Conditions s1)\<rparr>)"

definition MarkNoSink :: "string \<Rightarrow> string \<Rightarrow> KinesisSourceStatus \<Rightarrow> KinesisSourceStatus" where
  "MarkNoSink reason message s =
     s\<lparr>Conditions := MarkFalse condSet KinesisSourceConditionSinkProvided reason message (Conditions s)\<rparr>"

definition MarkDeployed :: "KinesisSourceStatus \<Rightarrow> KinesisSourceStatus" where
  "MarkDeployed s = s\<lparr>Conditions := MarkTrue condSet KinesisSourceConditionDeployed (Conditions s)\<rparr>"

definition MarkDeploying :: "string \<Rightarrow> string \<Rightarrow> KinesisSourceStatus \<Rightarrow> KinesisSourceStatus" where
  "MarkDeploying reason message s =
     s\<lparr>Conditions := MarkUnknown condSet KinesisSourceConditionDeployed reason message (Conditions s)\<rparr>"

definition MarkNotDeployed :: "string \<Rightarrow> string \<Rightarrow> KinesisSourceStatus \<Rightarrow> KinesisSourceStatus" where
  "MarkNotDeployed reason message s =
     s\<lparr>Conditions := MarkFalse condSet KinesisSourceConditionDeployed reason message (Conditions s)\<rparr>"

text \<open>
  Reachable statuses: the zero value \<open>KinesisSourceStatus{}\<close> followed by any sequence of
  the six mutating methods.
\<close>

datatype StatusOp =
    OpInitializeConditions
  | OpMarkSink string
  | OpMarkNoSink string string
  | OpMarkDeployed
  | OpMarkDeploying string string
  | OpMarkNotDeployed string string

fun apply_op :: "KinesisSourceStatus \<Rightarrow> StatusOp \<Rightarrow> KinesisSourceStatus" where
  "apply_op s OpInitializeConditions = InitializeConditions s"
| "apply_op s (OpMarkSink uri) = MarkSink uri s"
| "apply_op s (OpMarkNoSink reason message) = MarkNoSink reason message s"
| "apply_op s OpMarkDeployed = MarkDeployed s"
| "apply_op s (OpMarkDeploying reason message) = MarkDeploying reason message s"
| "apply_op s (OpMarkNotDeployed reason message) = MarkNotDeployed reason message s"

definition zero_status :: KinesisSourceStatus where
  "zero_status = \<lparr>ObservedGeneration = 0, Conditions = [], SinkURI = []\<rparr>"

definition run_ops :: "StatusOp list \<Rightarrow> KinesisSourceStatus" where
  "run_ops ops = foldl apply_op zero_status ops"

text \<open>The status (True, False, Unknown) of the condition of a type, when there is one.\<close>

definition cond_status :: "Condition list \<Rightarrow> ConditionType \<Rightarrow> ConditionStatus option" where
  "cond_status cs t = map_option cond_Status (GetCondition cs t)"

definition status_of :: "KinesisSourceStatus \<Rightarrow> ConditionType \<Rightarrow> ConditionStatus option" where
  "status_of s t = cond_status (Conditions s) t"

text \<open>
  The invariant of the condition list: at most one condition per type; Ready is True exactly
  when both dependents are; a False dependent makes Ready False.
\<close>

definition cond_inv :: "Condition list \<Rightarrow> bool" where
  "cond_inv cs \<longleftrightarrow>
     distinct (map cond_Type cs) \<and>
     (cond_status cs ''Ready'' = Some ConditionTrue \<longleftrightarrow>
        cond_status cs ''SinkProvided'' = Some ConditionTrue \<and>
        cond_status cs ''Deployed'' = Some ConditionTrue) \<and>
     (cond_status cs ''SinkProvided'' = Some ConditionFalse \<or>
      cond_status cs ''Deployed'' = Some ConditionFalse
        \<longrightarrow> cond_status cs ''Ready'' = Some ConditionFalse)"


section \<open>Kubernetes objects used by the controller\<close>

text \<open>
  Only the fields this repository reads or writes are kept. Maps (\<open>map[string]string\<close>) are
  partial functions. A pointer field that may be nil is an \<open>option\<close>.
\<close>

datatype error = Errorf string | NotFound | ClientError string

text \<open>\<open>apierrors.IsNotFound\<close>\<close>

definition IsNotFound :: "error \<Rightarrow> bool" where
  "IsNotFound e = (case e of NotFound \<Rightarrow> True | _ \<Rightarrow> False)"

record SecretKeySelector =
  sks_Name :: string
  sks_Key :: string

record KiamOptions =
  AssignedIAMRole :: string
  KCLIAMRoleARN :: string

record ObjectReference =
  ref_Kind :: string
  ref_Name :: string
  ref_APIVersion :: string

record KinesisSourceSpec =
  StreamName :: string
  Region :: string
  AwsCredsSecret :: SecretKeySelector
  KIAMOptions :: KiamOptions
  Sink :: "ObjectReference option"
  ServiceAccountName :: string

record KinesisSource =
  Name :: string
  Namespace :: string
  UID :: string
  DeletionTimestamp :: "int option"
  Finalizers :: "string list"
  Spec :: KinesisSourceSpec
  Status :: KinesisSourceStatus

record OwnerReference =
  own_APIVersion :: string
  own_Kind :: string
  own_Name :: string
  own_UID :: string
  own_Controller :: "bool option"
  own_BlockOwnerDeletion :: "bool option"

record EnvVar =
  env_Name :: string
  env_Value :: string

record VolumeMount =
  vm_Name :: string
  vm_MountPath :: string

text \<open>\<open>vol_Secret\<close> is \<open>VolumeSource.Secret\<close> (nil, or the secret's name).\<close>

record Volume =
  vol_Name :: string
  vol_Secret :: "string option"

record Container =
  ctr_Name :: string
  ctr_Image :: string
  ctr_Env :: "EnvVar list"
  ctr_VolumeMounts :: "VolumeMount list"

record PodSpec =
  pod_ServiceAccountName :: string
  pod_Containers :: "Container list"
  pod_Volumes :: "Volume list"

record PodTemplateSpec =
  tpl_Annotations :: "string \<rightharpoonup> string"
  tpl_Labels :: "string \<rightharpoonup> string"
  tpl_Spec :: PodSpec

record DeploymentSpec =
  ds_Selector :: "string \<rightharpoonup> string"
  ds_Replicas :: "32 word option"
  ds_Template :: PodTemplateSpec

record Deployment =
  dep_Namespace :: string
  dep_GenerateName :: string
  dep_Labels :: "string \<rightharpoonup> string"
  dep_OwnerReferences :: "OwnerReference list"
  dep_Spec :: DeploymentSpec

section \<open>Workload spec builder (pkg/reconciler/resources/receive_adapter.go)\<close>

record ReceiveAdapterArgs =
  args_Image :: string
  args_Source :: KinesisSource
  args_Labels :: "string \<rightharpoonup> string"
  args_SinkURI :: string

definition makeDeploymentSpec :: "ReceiveAdapterArgs \<Rightarrow> DeploymentSpec" where
  "makeDeploymentSpec args =
     (let replicas = (1 :: 32 word); src = args_Source args
      in if length (sks_Name (AwsCredsSecret (Spec src))) > 0 \<and>
            length (sks_Key (AwsCredsSecret (Spec src))) > 0
         then
           (let credsVolume = ''aws-credentials'';
                credsMountPath = ''/var/secrets/aws'';
                credsFile = credsMountPath @ ''/'' @ sks_Key (AwsCredsSecret (Spec src))
            in \<lparr>ds_Selector = args_Labels args,
                ds_Replicas = Some replicas,
                ds_Template =
                  \<lparr>tpl_Annotations = [''sidecar.istio.io/inject'' \<mapsto> ''true''],
                   tpl_Labels = args_Labels args,
                   tpl_Spec =
                     \<lparr>pod_ServiceAccountName = ServiceAccountName (Spec src),
                      pod_Containers =
                        [\<lparr>ctr_Name = ''receive-adapter'',
                          ctr_Image = args_Image args,
                          ctr_Env =
                            [\<lparr>env_Name = ''AWS_APPLICATION_CREDENTIALS'', env_Value = credsFile\<rparr>,
                             \<lparr>env_Name = ''STREAM_NAME'', env_Value = StreamName (Spec src)\<rparr>,
                             \<lparr>env_Name = ''REGION'', env_Value = Region (Spec src)\<rparr>,
                             \<lparr>env_Name = ''SINK_URI'', env_Value = args_SinkURI args\<rparr>,
                             \<lparr>env_Name = ''CONSUMER_NAME'', env_Value = Name src\<rparr>],
                          ctr_VolumeMounts =
                            [\<lparr>vm_Name = credsVolume, vm_MountPath = credsMountPath\<rparr>]\<rparr>],
                      pod_Volumes =
                        [\<lparr>vol_Name = credsVolume,
                          vol_Secret = Some (sks_Name (AwsCredsSecret (Spec src)))\<rparr>]\<rparr>\<rparr>\<rparr>)
         else
           \<lparr>ds_Selector = args_Labels args,
            ds_Replicas = Some replicas,
            ds_Template =
              \<lparr>tpl_Annotations =
                 [''sidecar.istio.io/inject'' \<mapsto> ''true'',
                  ''iam.amazonaws.com/role'' \<mapsto> AssignedIAMRole (KIAMOptions (Spec src))],
               tpl_Labels = args_Labels args,
               tpl_Spec =
                 \<lparr>pod_ServiceAccountName = ServiceAccountName (Spec src),
                  pod_Containers =
                    [\<lparr>ctr_Name = ''receive-adapter'',
                      ctr_Image = args_Image args,
                      ctr_Env =
                        [\<lparr>env_Name = ''STREAM_NAME'', env_Value = StreamName (Spec src)\<rparr>,
                         \<lparr>env_Name = ''KCL_IAM_ROLE_ARN'',
                          env_Value = KCLIAMRoleARN (KIAMOptions (Spec src))\<rparr>,
                         \<lparr>env_Name = ''REGION'', env_Value = Region (Spec src)\<rparr>,
                         \<lparr>env_Name = ''SINK_URI'', env_Value = args_SinkURI args\<rparr>,
                         \<lparr>env_Name = ''CONSUMER_NAME'', env_Value = Name src\<rparr>],
                      ctr_VolumeMounts = []\<rparr>],
                  pod_Volumes = []\<rparr>\<rparr>\<rparr>)"

definition MakeReceiveAdapter :: "ReceiveAdapterArgs \<Rightarrow> Deployment" where
  "MakeReceiveAdapter args =
     \<lparr>dep_Namespace = Namespace (args_Source args),
      dep_GenerateName = ''kinesis-'' @ Name (args_Source args) @ ''-'',
      dep_Labels = args_Labels args,
      dep_OwnerReferences = [],
      dep_Spec = makeDeploymentSpec args\<rparr>"

text \<open>The value of the first environment variable of that name in a container, if any.\<close>

definition env_lookup :: "Container \<Rightarrow> string \<Rightarrow> string option" where
  "env_lookup c n = map_option env_Value (find (\<lambda>e. env_Name e = n) (ctr_Env c))"


section \<open>Reconcile controller (pkg/reconciler/kinesissource.go)\<close>

definition controllerAgentName :: string where
  "controllerAgentName = ''aws-kinesis-source-controller''"

definition finalizerName :: string where
  "finalizerName = controllerAgentName"

text \<open>
  The collaborators of one reconciliation pass. \<open>client_GetSinkURI\<close> is the answer of
  \<open>sinks.GetSinkURI\<close> for a sink reference and namespace; \<open>client_List\<close> the answer of
  \<open>client.List\<close> for a namespace and label selector; \<open>client_Update\<close> and \<open>client_Create\<close>
  return the error of the call, if any. \<open>scheme_gvk\<close> is the API version and kind the scheme
  has registered for \<open>KinesisSource\<close> (nil when it is not registered).
\<close>

record reconciler =
  client_GetSinkURI :: "ObjectReference option \<Rightarrow> string \<Rightarrow> error + string"
  client_List :: "string \<Rightarrow> (string \<rightharpoonup> string) \<Rightarrow> error + Deployment list"
  client_Update :: "Deployment \<Rightarrow> error option"
  client_Create :: "Deployment \<Rightarrow> error option"
  scheme_gvk :: "(string \<times> string) option"
  receiveAdapterImage :: string

text \<open>The calls a pass makes against the orchestration API, in order.\<close>

datatype api_call =
    GetSinkCall
  | ListCall string
  | UpdateCall Deployment
  | CreateCall Deployment

fun is_create :: "api_call \<Rightarrow> bool" where
  "is_create (CreateCall _) = True"
| "is_create _ = False"

fun is_update :: "api_call \<Rightarrow> bool" where
  "is_update (UpdateCall _) = True"
| "is_update _ = False"

text \<open>
  \<open>sets.String\<close> of apimachinery, as a list without duplicates: \<open>NewString\<close>, \<open>Insert\<close>,
  \<open>Delete\<close>, and \<open>List\<close>, which returns the members sorted.
\<close>

definition sets_NewString :: "string list \<Rightarrow> string list" where
  "sets_NewString items = remdups items"

definition sets_Insert :: "string \<Rightarrow> string list \<Rightarrow> string list" where
  "sets_Insert x s = (if x \<in> set s then s else s @ [x])"

definition sets_Delete :: "string \<Rightarrow> string list \<Rightarrow> string list" where
  "sets_Delete x s = removeAll x s"

definition sets_List :: "string list \<Rightarrow> string list" where
  "sets_List s = sort s"

definition addFinalizer :: "KinesisSource \<Rightarrow> KinesisSource" where
  "addFinalizer s =
     s\<lparr>Finalizers := sets_List (sets_Insert finalizerName (sets_NewString (Finalizers s)))\<rparr>"

definition removeFinalizer :: "KinesisSource \<Rightarrow> KinesisSource" where
  "removeFinalizer s =
     s\<lparr>Finalizers := sets_List (sets_Delete finalizerName (sets_NewString (Finalizers s)))\<rparr>"

definition getLabels :: "KinesisSource \<Rightarrow> (string \<rightharpoonup> string)" where
  "getLabels src =
     [''knative-eventing-source'' \<mapsto> controllerAgentName,
      ''knative-eventing-source-name'' \<mapsto> Name src]"

text \<open>
  \<open>metav1.IsControlledBy\<close>: the first owner reference with \<open>Controller\<close> set and true, if
  there is one, carries the owner's UID.
\<close>

definition GetControllerOf :: "Deployment \<Rightarrow> OwnerReference option" where
  "GetControllerOf d = find (\<lambda>r. own_Controller r = Some True) (dep_OwnerReferences d)"

definition IsControlledBy :: "Deployment \<Rightarrow> KinesisSource \<Rightarrow> bool" where
  "IsControlledBy d owner =
     (case GetControllerOf d of None \<Rightarrow> False | Some r \<Rightarrow> own_UID r = UID owner)"

text \<open>
  \<open>getReceiveAdapter\<close>: list by namespace and label selector, return the first item controlled
  by the Source, or a NotFound error.
\<close>

definition getReceiveAdapter :: "reconciler \<Rightarrow> KinesisSource \<Rightarrow> error + Deployment" where
  "getReceiveAdapter r src =
     (case client_List r (Namespace src) (getLabels src) of
        Inl err \<Rightarrow> Inl err
      | Inr items \<Rightarrow>
          (case find (\<lambda>d. IsControlledBy d src) items of
             Some d \<Rightarrow> Inr d
           | None \<Rightarrow> Inl NotFound))"

text \<open>
  \<open>equality.Semantic.DeepDerivative(a1, a2)\<close> of apimachinery on the modelled types: an unset
  field of \<open>a1\<close> (empty string, empty list, nil pointer) is not compared; a list of \<open>a1\<close> may
  not be longer than that of \<open>a2\<close> and is compared element by element with its prefix.
  A pod-spec field that is not modelled is never set by this controller, so it is unset in
  the first argument and ignored. \<open>equality.Semantic.DeepEqual\<close> on environment lists is
  equality (a nil and an empty list are the same list here, as they are for that function).
\<close>

definition derive_string :: "string \<Rightarrow> string \<Rightarrow> bool" where
  "derive_string a1 a2 = (if length a1 = 0 then True else a1 = a2)"

definition derive_list :: "('a \<Rightarrow> 'a \<Rightarrow> bool) \<Rightarrow> 'a list \<Rightarrow> 'a list \<Rightarrow> bool" where
  "derive_list f a1 a2 =
     (if length a1 = 0 then True
      else if length a1 > length a2 then False
      else list_all (\<lambda>(x, y). f x y) (zip a1 a2))"

definition derive_ptr :: "('a \<Rightarrow> 'a \<Rightarrow> bool) \<Rightarrow> 'a option \<Rightarrow> 'a option \<Rightarrow> bool" where
  "derive_ptr f a1 a2 =
     (case a1 of None \<Rightarrow> True
      | Some x \<Rightarrow> (case a2 of None \<Rightarrow> False | Some y \<Rightarrow> f x y))"

definition derive_EnvVar :: "EnvVar \<Rightarrow> EnvVar \<Rightarrow> bool" where
  "derive_EnvVar a1 a2 =
     (derive_string (env_Name a1) (env_Name a2) \<and> derive_string (env_Value a1) (env_Value a2))"

definition derive_VolumeMount :: "VolumeMount \<Rightarrow> VolumeMount \<Rightarrow> bool" where
  "derive_VolumeMount a1 a2 =
     (derive_string (vm_Name a1) (vm_Name a2) \<and> derive_string (vm_MountPath a1) (vm_MountPath a2))"

definition derive_Volume :: "Volume \<Rightarrow> Volume \<Rightarrow> bool" where
  "derive_Volume a1 a2 =
     (derive_string (vol_Name a1) (vol_Name a2) \<and>
      derive_ptr derive_string (vol_Secret a1) (vol_Secret a2))"

definition derive_Container :: "Container \<Rightarrow> Container \<Rightarrow> bool" where
  "derive_Container a1 a2 =
     (derive_string (ctr_Name a1) (ctr_Name a2) \<and>
      derive_string (ctr_Image a1) (ctr_Image a2) \<and>
      derive_list derive_EnvVar (ctr_Env a1) (ctr_Env a2) \<and>
      derive_list derive_VolumeMount (ctr_VolumeMounts a1) (ctr_VolumeMounts a2))"

definition DeepDerivative :: "PodSpec \<Rightarrow> PodSpec \<Rightarrow> bool" where
  "DeepDerivative a1 a2 =
     (derive_string (pod_ServiceAccountName a1) (pod_ServiceAccountName a2) \<and>
      derive_list derive_Container (pod_Containers a1) (pod_Containers a2) \<and>
      derive_list derive_Volume (pod_Volumes a1) (pod_Volumes a2))"

definition DeepEqual :: "EnvVar list \<Rightarrow> EnvVar list \<Rightarrow> bool" where
  "DeepEqual a1 a2 = (a1 = a2)"

text \<open>
  The loop of \<open>podSpecChanged\<close> over the new containers, run once both lists are known to
  have the same length.
\<close>

fun env_changed :: "Container list \<Rightarrow> Container list \<Rightarrow> bool" where
  "env_changed (n # ns) (old # olds) =
     (if \<not> DeepEqual (ctr_Env n) (ctr_Env old) then True else env_changed ns olds)"
| "env_changed _ _ = False"

definition podSpecChanged :: "PodSpec \<Rightarrow> PodSpec \<Rightarrow> bool" where
  "podSpecChanged oldPodSpec newPodSpec =
     (if \<not> DeepDerivative newPodSpec oldPodSpec then True
      else if length (pod_Containers oldPodSpec) \<noteq> length (pod_Containers newPodSpec) then True
      else env_changed (pod_Containers newPodSpec) (pod_Containers oldPodSpec))"

text \<open>
  \<open>controllerutil.SetControllerReference(src, expected, scheme)\<close>: fails when the scheme does
  not know the owner's kind; otherwise adds a controller reference to the owner. The object it
  is called on here is fresh from \<open>MakeReceiveAdapter\<close> and has no owner reference, so the
  library's scan of existing references finds nothing.
\<close>

definition SetControllerReference ::
  "KinesisSource \<Rightarrow> Deployment \<Rightarrow> (string \<times> string) option \<Rightarrow> error + Deployment" where
  "SetControllerReference owner object gvk =
     (case gvk of
        None \<Rightarrow> Inl (Errorf ''no kind is registered for the type v1alpha1.KinesisSource'')
      | Some (apiVersion, kind) \<Rightarrow>
          Inr (object\<lparr>dep_OwnerReferences := dep_OwnerReferences object @
                 [\<lparr>own_APIVersion = apiVersion, own_Kind = kind, own_Name = Name owner,
                   own_UID = UID owner, own_Controller = Some True,
                   own_BlockOwnerDeletion = Some True\<rparr>]\<rparr>))"

definition no_credentials :: "KinesisSource \<Rightarrow> bool" where
  "no_credentials src =
     (length (sks_Name (AwsCredsSecret (Spec src))) = 0 \<and>
      length (sks_Key (AwsCredsSecret (Spec src))) = 0 \<and>
      length (AssignedIAMRole (KIAMOptions (Spec src))) = 0 \<and>
      length (KCLIAMRoleARN (KIAMOptions (Spec src))) = 0)"

definition adapterArgs :: "reconciler \<Rightarrow> KinesisSource \<Rightarrow> string \<Rightarrow> ReceiveAdapterArgs" where
  "adapterArgs r src sinkURI =
     \<lparr>args_Image = receiveAdapterImage r, args_Source = src,
      args_Labels = getLabels src, args_SinkURI = sinkURI\<rparr>"

text \<open>
  The first test of \<open>createReceiveAdapter\<close> on the result of \<open>getReceiveAdapter\<close>:
  \<open>err != nil && !apierrors.IsNotFound(err)\<close>.
\<close>

definition lookup_failed :: "reconciler \<Rightarrow> KinesisSource \<Rightarrow> bool" where
  "lookup_failed r src =
     (case getReceiveAdapter r src of Inl err \<Rightarrow> \<not> IsNotFound err | Inr _ \<Rightarrow> False)"

text \<open>
  \<open>createReceiveAdapter\<close> returns the deployment (or nil), the error (or nil), and the calls
  made. It reads the Source and never writes to it.
\<close>

definition createReceiveAdapter ::
  "reconciler \<Rightarrow> KinesisSource \<Rightarrow> string \<Rightarrow> Deployment option \<times> error option \<times> api_call list" where
  "createReceiveAdapter r src sinkURI =
     (let got = getReceiveAdapter r src;
          listed = [ListCall (Namespace src)]
      in if lookup_failed r src
         then (None, (case got of Inl err \<Rightarrow> Some err | Inr _ \<Rightarrow> None), listed)
         else
             if no_credentials src
             then (None, Some (Errorf ''Configuration error''), listed)
             else
               (let expected = MakeReceiveAdapter (adapterArgs r src sinkURI)
                in case got of
                     Inr ra \<Rightarrow>
                       if podSpecChanged (tpl_Spec (ds_Template (dep_Spec ra)))
                                         (tpl_Spec (ds_Template (dep_Spec expected)))
                       then
                         (let ra' = ra\<lparr>dep_Spec := (dep_Spec ra)\<lparr>ds_Template :=
                                       (ds_Template (dep_Spec ra))\<lparr>tpl_Spec :=
                                          tpl_Spec (ds_Template (dep_Spec expected))\<rparr>\<rparr>\<rparr>
                          in case client_Update r ra' of
                               Some err \<Rightarrow> (Some ra', Some err, listed @ [UpdateCall ra'])
                             | None \<Rightarrow> (Some ra', None, listed @ [UpdateCall ra']))
                       else (Some ra, None, listed)
                   | Inl _ \<Rightarrow>
                       (case SetControllerReference src expected (scheme_gvk r) of
                          Inl err \<Rightarrow> (None, Some err, listed)
                        | Inr owned \<Rightarrow>
                            (case client_Create r owned of
                               Some err \<Rightarrow> (None, Some err, listed @ [CreateCall owned])
                             | None \<Rightarrow> (Some owned, None, listed @ [CreateCall owned])))))"

text \<open>
  \<open>Reconcile\<close> on a \<open>KinesisSource\<close> (for any other object the Go function logs and returns
  nil). The result is the Source as the pass leaves it, the returned error, and the calls made.
\<close>

definition Reconcile ::
  "reconciler \<Rightarrow> KinesisSource \<Rightarrow> KinesisSource \<times> error option \<times> api_call list" where
  "Reconcile r src0 =
     (if DeletionTimestamp src0 \<noteq> None
      then (removeFinalizer src0, None, [])
      else
        (let src1 = addFinalizer src0;
             src2 = src1\<lparr>Status := InitializeConditions (Status src1)\<rparr>
         in case client_GetSinkURI r (Sink (Spec src2)) (Namespace src2) of
              Inl err \<Rightarrow>
                (src2\<lparr>Status := MarkNoSink ''NotFound'' [] (Status src2)\<rparr>, Some err, [GetSinkCall])
            | Inr sinkURI \<Rightarrow>
                (let src3 = src2\<lparr>Status := MarkSink sinkURI (Status src2)\<rparr>
                 in case createReceiveAdapter r src3 sinkURI of
                      (_, Some err, calls) \<Rightarrow> (src3, Some err, GetSinkCall # calls)
                    | (_, None, calls) \<Rightarrow>
                        (src3\<lparr>Status := MarkDeployed (Status src3)\<rparr>, None, GetSinkCall # calls))))"

section \<open>Receiver adapter (pkg/adapter)\<close>

text \<open>
  A Go pointer is nil, or an address together with the value stored there. The Kinesis record
  fields are \<open>*string\<close>; the consumer runtime hands the processor a slice of non-nil record
  pointers, so a record itself is a value here.
\<close>

datatype 'a ptr = NilPtr | Ptr (addr: "64 word") (deref: 'a)

record Record =
  rec_SequenceNumber :: "string ptr"
  rec_PartitionKey :: "string ptr"
  rec_Data :: string

record ProcessRecordsInput =
  Records :: "Record list"
  MillisBehindLatest :: int

record Event =
  ev_ID :: string
  ev_Type :: string
  ev_Source :: string
  ev_Time :: int
  ev_Extensions :: "(string \<times> string) list"
  ev_Data :: ProcessRecordsInput

text \<open>
  \<open>a_client\<close> is \<open>client.Send\<close> reduced to the error it returns; \<open>a_streamARN\<close> is the
  \<open>*string\<close> that \<open>Start\<close> fills in from the stream description.
\<close>

record Adapter =
  a_StreamName :: string
  a_Region :: string
  a_SinkURI :: string
  a_KCLIAMRoleARN :: string
  a_CredsFile :: string
  a_streamARN :: "string option"
  a_ConsumerName :: string
  a_client :: "Event \<Rightarrow> error option"

definition eventType :: string where
  "eventType = ''aws.kinesis.event''"

definition extEventName :: string where
  "extEventName = ''aws:kinesis:record''"

definition extEventSource :: string where
  "extEventSource = ''aws:kinesis''"

definition extKinesisSchemaVersion :: string where
  "extKinesisSchemaVersion = ''1.0''"

datatype panic = IndexOutOfRange | NilDereference

datatype action = Send Event | Checkpoint "string ptr"

text \<open>
  What \<open>fmt\<close> prints for the verb \<open>%v\<close>: an \<open>int\<close> in decimal; a pointer to a string as
  its address in hexadecimal with the prefix \<open>0x\<close> (\<open><nil>\<close> for a nil pointer); a string as
  itself.
\<close>

definition digit_char :: "nat \<Rightarrow> char" where
  "digit_char d = ''0123456789abcdef'' ! d"

fun fmt_nat :: "nat \<Rightarrow> nat \<Rightarrow> string" where
  "fmt_nat b n =
     (if b < 2 \<or> 16 < b then []
      else if n < b then [digit_char n]
      else fmt_nat b (n div b) @ [digit_char (n mod b)])"

declare fmt_nat.simps [simp del]

definition fmt_v_int :: "nat \<Rightarrow> string" where
  "fmt_v_int n = fmt_nat 10 n"

definition fmt_v_ptr :: "'a ptr \<Rightarrow> string" where
  "fmt_v_ptr p = (case p of NilPtr \<Rightarrow> ''<nil>'' | Ptr a _ \<Rightarrow> ''0x'' @ fmt_nat 16 (unat a))"

text \<open>
  \<open>postMessage\<close>, with the current time (in nanoseconds) as an argument. The result is the
  panic or the error returned by the send, and the events sent. The event time is the current
  time plus the duration \<open>-1 * time.Millisecond * time.Duration(m.MillisBehindLatest)\<close>,
  a product of \<open>int64\<close> nanoseconds that wraps around.
\<close>

definition postMessage ::
  "Adapter \<Rightarrow> ProcessRecordsInput \<Rightarrow> int \<Rightarrow> (panic + error option) \<times> action list" where
  "postMessage a m now =
     (case Records m of
        [] \<Rightarrow> (Inl IndexOutOfRange, [])
      | first # _ \<Rightarrow>
          (let sequenceNumber = rec_SequenceNumber first;
               recordsCount = length (Records m);
               eventID = fmt_v_ptr sequenceNumber @ '':'' @ fmt_v_int recordsCount
           in case a_streamARN a of
                None \<Rightarrow> (Inl NilDereference, [])
              | Some arn \<Rightarrow>
                  (let event =
                         \<lparr>ev_ID = eventID,
                          ev_Type = eventType,
                          ev_Source = ''/'' @ arn,
                          ev_Time = now + sint (word_of_int (- 1000000 * MillisBehindLatest m) :: 64 word),
                          ev_Extensions =
                            [(''Ext_KinesisSchemaVersion'', extKinesisSchemaVersion),
                             (''Ext_EventSource'', extEventSource),
                             (''Ext_EventName'', extEventName),
                             (''Ext_EventSourceARN'', arn),
                             (''Ext_Region'', a_Region a)],
                          ev_Data = m\<rparr>
                   in (Inr (a_client a event), [Send event]))))"

text \<open>Indexing a slice with an \<open>int\<close>: out of range panics.\<close>

definition index :: "'a list \<Rightarrow> int \<Rightarrow> panic + 'a" where
  "index xs i = (if 0 \<le> i \<and> i < int (length xs) then Inr (xs ! nat i) else Inl IndexOutOfRange)"

text \<open>
  \<open>ProcessRecords\<close>: the panic it ends with (or none, when it returns), and what it did: the
  events sent and the checkpoint calls on \<open>input.Checkpointer\<close>.
\<close>

definition ProcessRecords ::
  "Adapter \<Rightarrow> ProcessRecordsInput \<Rightarrow> int \<Rightarrow> panic option \<times> action list" where
  "ProcessRecords a input now =
     (if length (Records input) = 0 then (None, [])
      else
        (case postMessage a input now of
           (Inl p, acts) \<Rightarrow> (Some p, acts)
         | (Inr (Some err), acts) \<Rightarrow> (None, acts)
         | (Inr None, acts) \<Rightarrow>
             (case index (Records input) (int (length (Records input)) - 1) of
                Inl p \<Rightarrow> (Some p, acts)
              | Inr lastRecord \<Rightarrow>
                  (None, acts @ [Checkpoint (rec_SequenceNumber lastRecord)]))))"

datatype ShutdownReason = REQUESTED | TERMINATE | ZOMBIE

record ShutdownInput =
  sd_ShutdownReason :: ShutdownReason

definition Shutdown :: "ShutdownInput \<Rightarrow> action list" where
  "Shutdown input = (if sd_ShutdownReason input = TERMINATE then [Checkpoint NilPtr] else [])"



text \<open>The ids of the events sent, in order.\<close>

fun event_ids :: "action list \<Rightarrow> string list" where
  "event_ids [] = []"
| "event_ids (Send e # acts) = ev_ID e # event_ids acts"
| "event_ids (Checkpoint _ # acts) = event_ids acts"

section \<open>Fixtures of the repository's tests\<close>

text \<open>
  \<open>getSource()\<close> of \<open>kinesissource_test.go\<close>: a Source with both a secret reference and
  KIAM options, as \<open>TestMakeReceiveAdapterCredential\<close> also has it.
\<close>

definition test_getSource :: KinesisSource where
  "test_getSource =
     \<lparr>Name = ''test-kinesis-source'', Namespace = ''testnamespace'', UID = ''1234-5678-90'',
      DeletionTimestamp = None, Finalizers = [],
      Spec = \<lparr>StreamName = ''kinesis-name'', Region = ''us-west-2'',
              AwsCredsSecret = \<lparr>sks_Name = ''kinesis-secret-name'', sks_Key = ''aws-secret-key''\<rparr>,
              KIAMOptions = \<lparr>AssignedIAMRole = ''ASSIGNED-IAM-ROLE'', KCLIAMRoleARN = ''ROLE-ARN''\<rparr>,
              Sink = Some \<lparr>ref_Kind = ''Sink'', ref_Name = ''testsink'',
                           ref_APIVersion = ''duck.knative.dev/v1alpha1''\<rparr>,
              ServiceAccountName = ''source-svc-acct''\<rparr>,
      Status = \<lparr>ObservedGeneration = 0, Conditions = [], SinkURI = []\<rparr>\<rparr>"

text \<open>The Source of \<open>TestMakeReceiveAdapterKiam\<close>: KIAM options only.\<close>

definition test_kiamSource :: KinesisSource where
  "test_kiamSource =
     \<lparr>Name = ''source-name'', Namespace = ''source-namespace'', UID = [],
      DeletionTimestamp = None, Finalizers = [],
      Spec = \<lparr>StreamName = ''kinesis-name'', Region = ''us-west-2'',
              AwsCredsSecret = \<lparr>sks_Name = [], sks_Key = []\<rparr>,
              KIAMOptions = \<lparr>AssignedIAMRole = ''assigned-role'', KCLIAMRoleARN = ''kcl-role''\<rparr>,
              Sink = None,
              ServiceAccountName = ''source-svc-acct''\<rparr>,
      Status = \<lparr>ObservedGeneration = 0, Conditions = [], SinkURI = []\<rparr>\<rparr>"

text \<open>A Source with no credential configuration at all.\<close>

definition test_bareSource :: KinesisSource where
  "test_bareSource =
     test_getSource\<lparr>Spec := (Spec test_getSource)
        \<lparr>AwsCredsSecret := \<lparr>sks_Name = [], sks_Key = []\<rparr>,
         KIAMOptions := \<lparr>AssignedIAMRole = [], KCLIAMRoleARN = []\<rparr>\<rparr>\<rparr>"

definition addressableURI :: string where
  "addressableURI = ''http://addressable.sink.svc.cluster.local/''"

text \<open>
  The reconciler of \<open>TestReconcile\<close> (image \<open>test-ra-image\<close>), over a client that answers
  the sink lookup and the listing as given and accepts every update and create.
\<close>

definition test_reconciler :: "error + string \<Rightarrow> error + Deployment list \<Rightarrow> reconciler" where
  "test_reconciler sink listed =
     \<lparr>client_GetSinkURI = (\<lambda>_ _. sink), client_List = (\<lambda>_ _. listed),
      client_Update = (\<lambda>_. None), client_Create = (\<lambda>_. None),
      scheme_gvk = Some (''sources.eventing.knative.dev/v1alpha1'', ''KinesisSource''),
      receiveAdapterImage = ''test-ra-image''\<rparr>"

text \<open>
  \<open>getReceiveAdapter()\<close> of \<open>kinesissource_test.go\<close>: a deployment controlled by the
  Source (controller reference with the Source's UID), with the Source's labels and an empty
  spec.
\<close>

definition test_getReceiveAdapter :: Deployment where
  "test_getReceiveAdapter =
     \<lparr>dep_Namespace = ''testnamespace'', dep_GenerateName = [],
      dep_Labels = getLabels test_getSource,
      dep_OwnerReferences =
        [\<lparr>own_APIVersion = [], own_Kind = [], own_Name = [], own_UID = ''1234-5678-90'',
          own_Controller = Some True, own_BlockOwnerDeletion = None\<rparr>],
      dep_Spec =
        \<lparr>ds_Selector = Map.empty, ds_Replicas = None,
         ds_Template =
           \<lparr>tpl_Annotations = Map.empty, tpl_Labels = Map.empty,
            tpl_Spec = \<lparr>pod_ServiceAccountName = [], pod_Containers = [],
                        pod_Volumes = []\<rparr>\<rparr>\<rparr>\<rparr>"

text \<open>
  The workload a first pass creates for \<open>getSource()\<close>: the desired deployment with the
  controller reference to the Source.
\<close>

definition test_ownedAdapter :: Deployment where
  "test_ownedAdapter =
     (MakeReceiveAdapter
        \<lparr>args_Image = ''test-ra-image'', args_Source = test_getSource,
         args_Labels = getLabels test_getSource, args_SinkURI = addressableURI\<rparr>)
     \<lparr>dep_OwnerReferences :=
        [\<lparr>own_APIVersion = ''sources.eventing.knative.dev/v1alpha1'', own_Kind = ''KinesisSource'',
          own_Name = ''test-kinesis-source'', own_UID = ''1234-5678-90'',
          own_Controller = Some True, own_BlockOwnerDeletion = Some True\<rparr>]\<rparr>"

section \<open>Properties of the status conditions\<close>

lemma condSet_happy: "happy condSet = ''Ready''"
  by (simp add: condSet_def NewLivingConditionSet_def newConditionSet_def ConditionReady_def)

lemma condSet_dependents: "dependents condSet = [''SinkProvided'', ''Deployed'']"
  by (simp add: condSet_def NewLivingConditionSet_def newConditionSet_def ConditionReady_def
      KinesisSourceConditionReady_def KinesisSourceConditionSinkProvided_def
      KinesisSourceConditionDeployed_def)

lemma find_distinct_iff:
  "distinct (map f xs) \<Longrightarrow> (find (\<lambda>c. f c = t) xs = Some c) = (c \<in> set xs \<and> f c = t)"
  by (induction xs) (auto simp: image_iff)

lemma find_sort_key_distinct:
  assumes "distinct (map f xs)"
  shows "find (\<lambda>c. f c = t) (sort_key k xs) = find (\<lambda>c. f c = t) xs"
proof -
  have d: "distinct (map f (sort_key k xs))"
    using assms by (simp add: distinct_map)
  show ?thesis
  proof (cases "find (\<lambda>c. f c = t) xs")
    case None
    then have "find (\<lambda>c. f c = t) (sort_key k xs) = None"
      by (simp add: find_None_iff)
    then show ?thesis using None by simp
  next
    case (Some c)
    then have "c \<in> set (sort_key k xs) \<and> f c = t"
      using assms by (simp add: find_distinct_iff)
    then show ?thesis using Some d by (simp add: find_distinct_iff)
  qed
qed

lemma distinct_SetCondition:
  "distinct (map cond_Type cs) \<Longrightarrow> distinct (map cond_Type (SetCondition new cs))"
  by (auto simp: SetCondition_def distinct_map inj_on_def)

lemma GetCondition_SetCondition:
  assumes "distinct (map cond_Type cs)"
  shows "GetCondition (SetCondition new cs) t =
           (if t = cond_Type new then Some new else GetCondition cs t)"
proof (cases "new \<in> set cs")
  case True
  then show ?thesis using assms
    by (simp add: SetCondition_def GetCondition_def find_distinct_iff)
next
  case False
  have d: "distinct (map cond_Type (filter (\<lambda>c. cond_Type c \<noteq> cond_Type new) cs @ [new]))"
    using assms by (auto simp: distinct_map inj_on_def)
  have "find (\<lambda>c. cond_Type c = t) (filter (\<lambda>c. cond_Type c \<noteq> cond_Type new) cs @ [new])
        = (if t = cond_Type new then Some new else find (\<lambda>c. cond_Type c = t) cs)"
    by (induction cs) auto
  then show ?thesis using False d
    by (simp add: SetCondition_def GetCondition_def find_sort_key_distinct)
qed

lemma cond_status_SetCondition:
  "distinct (map cond_Type cs) \<Longrightarrow>
   cond_status (SetCondition new cs) t =
     (if t = cond_Type new then Some (cond_Status new) else cond_status cs t)"
  by (simp add: cond_status_def GetCondition_SetCondition)

lemma IsTrue_cond_status: "IsTrue (GetCondition cs t) = (cond_status cs t = Some ConditionTrue)"
  by (simp add: IsTrue_def cond_status_def split: option.splits)

lemma IsFalse_cond_status: "IsFalse (GetCondition cs t) = (cond_status cs t = Some ConditionFalse)"
  by (simp add: IsFalse_def cond_status_def split: option.splits)

lemma cond_inv_MarkTrue:
  assumes "cond_inv cs" "t = ''SinkProvided'' \<or> t = ''Deployed''"
  shows "cond_inv (MarkTrue condSet t cs)"
  using assms
  by (auto simp: cond_inv_def MarkTrue_def Let_def condSet_happy condSet_dependents
      IsTrue_cond_status cond_status_SetCondition distinct_SetCondition)

lemma cond_inv_MarkFalse:
  assumes "cond_inv cs" "t = ''SinkProvided'' \<or> t = ''Deployed''"
  shows "cond_inv (MarkFalse condSet t reason message cs)"
  using assms
  by (auto simp: cond_inv_def MarkFalse_def Let_def condSet_happy condSet_dependents
      cond_status_SetCondition distinct_SetCondition)

lemma cond_inv_MarkUnknown:
  assumes "cond_inv cs" "t = ''SinkProvided'' \<or> t = ''Deployed''"
  shows "cond_inv (MarkUnknown condSet t reason message cs)"
  using assms
  by (auto simp: cond_inv_def MarkUnknown_def MarkFalse_def Let_def condSet_happy
      condSet_dependents IsFalse_cond_status cond_status_SetCondition distinct_SetCondition)

lemma cond_inv_InitializeConditions:
  assumes "cond_inv cs"
  shows "cond_inv (InitializeConditions_impl condSet cs)"
  using assms
  by (auto simp: cond_inv_def InitializeConditions_impl_def InitializeCondition_def
      condSet_happy condSet_dependents cond_status_SetCondition distinct_SetCondition
      cond_status_def GetCondition_SetCondition split: option.splits)

text \<open>Once the Ready condition is there, no operation removes it.\<close>

lemma ready_present_MarkTrue:
  assumes "distinct (map cond_Type cs)" "cond_status cs ''Ready'' \<noteq> None"
  shows "cond_status (MarkTrue condSet t cs) ''Ready'' \<noteq> None"
  using assms
  by (auto simp: MarkTrue_def Let_def condSet_happy condSet_dependents
      cond_status_SetCondition distinct_SetCondition)

lemma ready_present_MarkFalse:
  assumes "distinct (map cond_Type cs)" "cond_status cs ''Ready'' \<noteq> None"
  shows "cond_status (MarkFalse condSet t reason message cs) ''Ready'' \<noteq> None"
  using assms
  by (auto simp: MarkFalse_def Let_def condSet_happy condSet_dependents
      cond_status_SetCondition distinct_SetCondition)

lemma ready_present_MarkUnknown:
  assumes "distinct (map cond_Type cs)" "cond_status cs ''Ready'' \<noteq> None"
  shows "cond_status (MarkUnknown condSet t reason message cs) ''Ready'' \<noteq> None"
  using assms
  by (auto simp: MarkUnknown_def MarkFalse_def Let_def condSet_happy condSet_dependents
      IsFalse_cond_status cond_status_SetCondition distinct_SetCondition)

lemma ready_present_InitializeConditions:
  assumes "distinct (map cond_Type cs)"
  shows "cond_status (InitializeConditions_impl condSet cs) ''Ready'' \<noteq> None"
  using assms
  by (auto simp: InitializeConditions_impl_def InitializeCondition_def
      condSet_happy condSet_dependents cond_status_SetCondition distinct_SetCondition
      cond_status_def GetCondition_SetCondition split: option.splits)

lemma cond_inv_apply_op: "cond_inv (Conditions s) \<Longrightarrow> cond_inv (Conditions (apply_op s op))"
  by (cases op)
     (simp_all add: InitializeConditions_def MarkSink_def MarkNoSink_def MarkDeployed_def
        MarkDeploying_def MarkNotDeployed_def Let_def cond_inv_MarkTrue cond_inv_MarkFalse
        cond_inv_MarkUnknown cond_inv_InitializeConditions
        KinesisSourceConditionSinkProvided_def KinesisSourceConditionDeployed_def)

lemma run_ops_snoc: "run_ops (ops @ [op]) = apply_op (run_ops ops) op"
  by (simp add: run_ops_def)

lemma cond_inv_run_ops: "cond_inv (Conditions (run_ops ops))"
proof (induction ops rule: rev_induct)
  case Nil
  show ?case by (simp add: run_ops_def zero_status_def cond_inv_def cond_status_def GetCondition_def)
next
  case (snoc op ops)
  then show ?case by (simp add: run_ops_snoc cond_inv_apply_op)
qed

lemma ready_present_apply_op:
  assumes "distinct (map cond_Type (Conditions s))"
    and "cond_status (Conditions s) ''Ready'' \<noteq> None \<or> op = OpInitializeConditions"
  shows "cond_status (Conditions (apply_op s op)) ''Ready'' \<noteq> None"
  using assms
  by (cases op)
     (auto simp: InitializeConditions_def MarkSink_def MarkNoSink_def MarkDeployed_def
        MarkDeploying_def MarkNotDeployed_def Let_def
        dest: ready_present_MarkTrue ready_present_MarkFalse ready_present_MarkUnknown
              ready_present_InitializeConditions)

lemma ready_present_run_ops:
  "OpInitializeConditions \<in> set ops \<Longrightarrow> cond_status (Conditions (run_ops ops)) ''Ready'' \<noteq> None"
proof (induction ops rule: rev_induct)
  case Nil
  then show ?case by simp
next
  case (snoc op ops)
  have d: "distinct (map cond_Type (Conditions (run_ops ops)))"
    using cond_inv_run_ops [of ops] by (simp add: cond_inv_def)
  from snoc have "cond_status (Conditions (run_ops ops)) ''Ready'' \<noteq> None \<or> op = OpInitializeConditions"
    by auto
  with d show ?case
    unfolding run_ops_snoc by (rule ready_present_apply_op)
qed


subsection \<open>Agreement with the repository's tests\<close>

lemmas status_eval =
  run_ops_def zero_status_def InitializeConditions_def InitializeConditions_impl_def
  InitializeCondition_def MarkSink_def MarkNoSink_def MarkDeployed_def MarkDeploying_def
  MarkNotDeployed_def MarkTrue_def MarkFalse_def MarkUnknown_def SetCondition_def
  GetCondition_def condSet_def NewLivingConditionSet_def newConditionSet_def ConditionReady_def
  KinesisSourceConditionReady_def KinesisSourceConditionSinkProvided_def
  KinesisSourceConditionDeployed_def severity_def isTerminal_def IsTrue_def IsFalse_def
  Status_GetCondition_def status_of_def cond_status_def IsReady_def IsHappy_def Let_def

text \<open>
  \<open>TestKinesisSourceStatusIsReady\<close> and \<open>TestKinesisSourceStatusGetCondition\<close> of
  \<open>kinesis_types_test.go\<close>, case by case (the comparison of the test ignores the transition
  time and the severity).
\<close>

lemma test_uninitialized:
  "\<not> IsReady (run_ops []) \<and> Status_GetCondition (run_ops []) KinesisSourceConditionReady = None"
  by (simp add: status_eval)

lemma test_initialized:
  "\<not> IsReady (run_ops [OpInitializeConditions]) \<and>
   Status_GetCondition (run_ops [OpInitializeConditions]) KinesisSourceConditionReady =
     Some \<lparr>cond_Type = ''Ready'', cond_Status = ConditionUnknown,
           cond_Severity = ConditionSeverityError, cond_Reason = [], cond_Message = []\<rparr>"
  by (simp add: status_eval)

lemma test_mark_deployed:
  "\<not> IsReady (run_ops [OpInitializeConditions, OpMarkDeployed]) \<and>
   Status_GetCondition (run_ops [OpInitializeConditions, OpMarkDeployed]) KinesisSourceConditionReady =
     Some \<lparr>cond_Type = ''Ready'', cond_Status = ConditionUnknown,
           cond_Severity = ConditionSeverityError, cond_Reason = [], cond_Message = []\<rparr>"
  by (simp add: status_eval)

lemma test_mark_sink:
  "\<not> IsReady (run_ops [OpInitializeConditions, OpMarkSink ''uri://example'']) \<and>
   Status_GetCondition (run_ops [OpInitializeConditions, OpMarkSink ''uri://example''])
       KinesisSourceConditionReady =
     Some \<lparr>cond_Type = ''Ready'', cond_Status = ConditionUnknown,
           cond_Severity = ConditionSeverityError, cond_Reason = [], cond_Message = []\<rparr>"
  by (simp add: status_eval)

lemma test_mark_sink_and_deployed:
  "IsReady (run_ops [OpInitializeConditions, OpMarkSink ''uri://example'', OpMarkDeployed]) \<and>
   Status_GetCondition (run_ops [OpInitializeConditions, OpMarkSink ''uri://example'', OpMarkDeployed])
       KinesisSourceConditionReady =
     Some \<lparr>cond_Type = ''Ready'', cond_Status = ConditionTrue,
           cond_Severity = ConditionSeverityError, cond_Reason = [], cond_Message = []\<rparr>"
  by (simp add: status_eval)

lemma test_then_no_sink:
  "\<not> IsReady (run_ops [OpInitializeConditions, OpMarkSink ''uri://example'', OpMarkDeployed,
                         OpMarkNoSink ''Testing'' ''hi'']) \<and>
   Status_GetCondition (run_ops [OpInitializeConditions, OpMarkSink ''uri://example'', OpMarkDeployed,
                                  OpMarkNoSink ''Testing'' ''hi'']) KinesisSourceConditionReady =
     Some \<lparr>cond_Type = ''Ready'', cond_Status = ConditionFalse,
           cond_Severity = ConditionSeverityError, cond_Reason = ''Testing'', cond_Message = ''hi''\<rparr>"
  by (simp add: status_eval)

lemma test_then_deploying:
  "\<not> IsReady (run_ops [OpInitializeConditions, OpMarkSink ''uri://example'', OpMarkDeployed,
                         OpMarkDeploying ''Testing'' ''hi'']) \<and>
   Status_GetCondition (run_ops [OpInitializeConditions, OpMarkSink ''uri://example'', OpMarkDeployed,
                                  OpMarkDeploying ''Testing'' ''hi'']) KinesisSourceConditionReady =
     Some \<lparr>cond_Type = ''Ready'', cond_Status = ConditionUnknown,
           cond_Severity = ConditionSeverityError, cond_Reason = ''Testing'', cond_Message = ''hi''\<rparr>"
  by (simp add: status_eval)

lemma test_then_not_deployed:
  "\<not> IsReady (run_ops [OpInitializeConditions, OpMarkSink ''uri://example'', OpMarkDeployed,
                         OpMarkNotDeployed ''Testing'' ''hi'']) \<and>
   Status_GetCondition (run_ops [OpInitializeConditions, OpMarkSink ''uri://example'', OpMarkDeployed,
                                  OpMarkNotDeployed ''Testing'' ''hi'']) KinesisSourceConditionReady =
     Some \<lparr>cond_Type = ''Ready'', cond_Status = ConditionFalse,
           cond_Severity = ConditionSeverityError, cond_Reason = ''Testing'', cond_Message = ''hi''\<rparr>"
  by (simp add: status_eval)

lemma test_not_deployed_deploying_deployed:
  "IsReady (run_ops [OpInitializeConditions, OpMarkSink ''uri://example'',
                     OpMarkNotDeployed ''MarkNotDeployed'' [], OpMarkDeploying ''MarkDeploying'' [],
                     OpMarkDeployed]) \<and>
   Status_GetCondition (run_ops [OpInitializeConditions, OpMarkSink ''uri://example'',
                     OpMarkNotDeployed ''MarkNotDeployed'' [], OpMarkDeploying ''MarkDeploying'' [],
                     OpMarkDeployed]) KinesisSourceConditionReady =
     Some \<lparr>cond_Type = ''Ready'', cond_Status = ConditionTrue,
           cond_Severity = ConditionSeverityError, cond_Reason = [], cond_Message = []\<rparr>"
  by (simp add: status_eval)

lemma test_sink_empty_and_deployed:
  "\<not> IsReady (run_ops [OpInitializeConditions, OpMarkSink [], OpMarkDeployed]) \<and>
   Status_GetCondition (run_ops [OpInitializeConditions, OpMarkSink [], OpMarkDeployed])
       KinesisSourceConditionReady =
     Some \<lparr>cond_Type = ''Ready'', cond_Status = ConditionUnknown,
           cond_Severity = ConditionSeverityError, cond_Reason = ''SinkEmpty'',
           cond_Message = ''Sink has resolved to empty.''\<rparr>"
  by (simp add: status_eval)

lemma test_sink_empty_deployed_then_sink:
  "IsReady (run_ops [OpInitializeConditions, OpMarkSink [], OpMarkDeployed,
                     OpMarkSink ''uri://example'']) \<and>
   Status_GetCondition (run_ops [OpInitializeConditions, OpMarkSink [], OpMarkDeployed,
                     OpMarkSink ''uri://example'']) KinesisSourceConditionReady =
     Some \<lparr>cond_Type = ''Ready'', cond_Status = ConditionTrue,
           cond_Severity = ConditionSeverityError, cond_Reason = [], cond_Message = []\<rparr>"
  by (simp add: status_eval)

text \<open>
  Ready is not a function of the two inputs: after a False input has been replaced by True
  while the other input is Unknown, Ready keeps the False it got earlier.
\<close>

lemma ready_keeps_earlier_false:
  "status_of (run_ops [OpInitializeConditions, OpMarkSink ''uri://example''])
      KinesisSourceConditionReady = Some ConditionUnknown \<and>
   status_of (run_ops [OpInitializeConditions, OpMarkNoSink ''NotFound'' [], OpMarkSink ''uri://example''])
      KinesisSourceConditionReady = Some ConditionFalse \<and>
   status_of (run_ops [OpInitializeConditions, OpMarkNoSink ''NotFound'' [], OpMarkSink ''uri://example''])
      KinesisSourceConditionSinkProvided = Some ConditionTrue \<and>
   status_of (run_ops [OpInitializeConditions, OpMarkNoSink ''NotFound'' [], OpMarkSink ''uri://example''])
      KinesisSourceConditionDeployed = Some ConditionUnknown"
  by (simp add: status_eval)

subsection \<open>Claim C1\<close>

text \<open>
  C1, as the code has it. For every status reached from the zero status by any sequence of
  \<open>InitializeConditions\<close>, \<open>MarkSink\<close>, \<open>MarkNoSink\<close>, \<open>MarkDeployed\<close>, \<open>MarkDeploying\<close>
  and \<open>MarkNotDeployed\<close>: Ready is True if and only if SinkProvided is True and Deployed is
  True; whenever one of the two is False, Ready is False; and once \<open>InitializeConditions\<close>
  has been called, in every combination other than both True, Ready is False or Unknown.
\<close>

theorem ready_aggregation:
  "let s = run_ops ops in
     (status_of s KinesisSourceConditionReady = Some ConditionTrue \<longleftrightarrow>
        status_of s KinesisSourceConditionSinkProvided = Some ConditionTrue \<and>
        status_of s KinesisSourceConditionDeployed = Some ConditionTrue) \<and>
     (status_of s KinesisSourceConditionSinkProvided = Some ConditionFalse \<or>
      status_of s KinesisSourceConditionDeployed = Some ConditionFalse
        \<longrightarrow> status_of s KinesisSourceConditionReady = Some ConditionFalse) \<and>
     (OpInitializeConditions \<in> set ops \<and>
      \<not> (status_of s KinesisSourceConditionSinkProvided = Some ConditionTrue \<and>
         status_of s KinesisSourceConditionDeployed = Some ConditionTrue)
        \<longrightarrow> status_of s KinesisSourceConditionReady = Some ConditionFalse \<or>
            status_of s KinesisSourceConditionReady = Some ConditionUnknown)"
proof -
  let ?cs = "Conditions (run_ops ops)"
  have inv: "cond_inv ?cs" by (rule cond_inv_run_ops)
  have iff: "cond_status ?cs ''Ready'' = Some ConditionTrue \<longleftrightarrow>
             cond_status ?cs ''SinkProvided'' = Some ConditionTrue \<and>
             cond_status ?cs ''Deployed'' = Some ConditionTrue"
    using inv by (simp add: cond_inv_def)
  have dom: "cond_status ?cs ''SinkProvided'' = Some ConditionFalse \<or>
             cond_status ?cs ''Deployed'' = Some ConditionFalse
             \<longrightarrow> cond_status ?cs ''Ready'' = Some ConditionFalse"
    using inv by (simp add: cond_inv_def)
  have pres: "OpInitializeConditions \<in> set ops \<longrightarrow> cond_status ?cs ''Ready'' \<noteq> None"
    using ready_present_run_ops by blast
  have tri: "cond_status ?cs ''Ready'' \<noteq> None \<and> cond_status ?cs ''Ready'' \<noteq> Some ConditionTrue
             \<longrightarrow> cond_status ?cs ''Ready'' = Some ConditionFalse \<or>
                 cond_status ?cs ''Ready'' = Some ConditionUnknown"
    by (cases "cond_status ?cs ''Ready''") (auto intro: ConditionStatus.exhaust)
  show ?thesis
    unfolding Let_def status_of_def KinesisSourceConditionReady_def ConditionReady_def
      KinesisSourceConditionSinkProvided_def KinesisSourceConditionDeployed_def
    using iff dom pres tri by blast
qed

theorem ready_aggregation_witness:
  "OpInitializeConditions \<in> set [OpInitializeConditions, OpMarkNoSink ''NotFound'' [],
                                   OpMarkDeploying ''Pending'' []] \<and>
   status_of (run_ops [OpInitializeConditions, OpMarkNoSink ''NotFound'' [],
                       OpMarkDeploying ''Pending'' []])
       KinesisSourceConditionSinkProvided = Some ConditionFalse \<and>
   status_of (run_ops [OpInitializeConditions, OpMarkNoSink ''NotFound'' [],
                       OpMarkDeploying ''Pending'' []])
       KinesisSourceConditionDeployed = Some ConditionUnknown \<and>
   status_of (run_ops [OpInitializeConditions, OpMarkNoSink ''NotFound'' [],
                       OpMarkDeploying ''Pending'' []])
       KinesisSourceConditionReady = Some ConditionFalse"
  using ready_aggregation [of "[OpInitializeConditions, OpMarkNoSink ''NotFound'' [],
                                OpMarkDeploying ''Pending'' []]"]
  by (simp add: status_eval)

text \<open>
  C1 as stated fails before the conditions are initialised: on the zero status, and after a
  lone \<open>MarkDeployed\<close>, the two inputs are not both True, yet there is no Ready condition at
  all, so it is neither False nor Unknown.
\<close>

theorem ready_absent_counterexample:
  "\<not> (status_of (run_ops []) KinesisSourceConditionSinkProvided = Some ConditionTrue \<and>
      status_of (run_ops []) KinesisSourceConditionDeployed = Some ConditionTrue) \<and>
   \<not> (status_of (run_ops []) KinesisSourceConditionReady = Some ConditionFalse \<or>
      status_of (run_ops []) KinesisSourceConditionReady = Some ConditionUnknown) \<and>
   status_of (run_ops [OpMarkDeployed]) KinesisSourceConditionDeployed = Some ConditionTrue \<and>
   status_of (run_ops [OpMarkDeployed]) KinesisSourceConditionSinkProvided = None \<and>
   \<not> (status_of (run_ops [OpMarkDeployed]) KinesisSourceConditionReady = Some ConditionFalse \<or>
      status_of (run_ops [OpMarkDeployed]) KinesisSourceConditionReady = Some ConditionUnknown)"
  by (simp add: status_eval)




text \<open>The same after a lone \<open>MarkSink\<close> with a non-empty URI: no Ready condition yet.\<close>

lemma ready_absent_after_lone_MarkSink:
  "status_of (run_ops [OpMarkSink ''uri://example'']) KinesisSourceConditionSinkProvided =
     Some ConditionTrue \<and>
   status_of (run_ops [OpMarkSink ''uri://example'']) KinesisSourceConditionDeployed = None \<and>
   status_of (run_ops [OpMarkSink ''uri://example'']) KinesisSourceConditionReady = None"
  by (simp add: status_eval)

section \<open>Properties of the receiver adapter\<close>

lemma index_last:
  "xs \<noteq> [] \<Longrightarrow> index xs (int (length xs) - 1) = Inr (last xs)"
  by (cases xs rule: rev_cases) (simp_all add: index_def nat_diff_distrib')

lemma index_first:
  "xs \<noteq> [] \<Longrightarrow> index xs 0 = Inr (hd xs)"
  by (cases xs) (simp_all add: index_def)

lemma postMessage_empty: "Records m = [] \<Longrightarrow> postMessage a m now = (Inl IndexOutOfRange, [])"
  by (simp add: postMessage_def)

lemma postMessage_no_index_panic:
  "Records m \<noteq> [] \<Longrightarrow> fst (postMessage a m now) \<noteq> Inl IndexOutOfRange"
  by (simp add: postMessage_def Let_def split: list.splits option.splits)

lemma postMessage_acts:
  "fst (postMessage a m now) = Inr r \<Longrightarrow> \<exists>event. snd (postMessage a m now) = [Send event]"
  by (simp add: postMessage_def Let_def split: list.splits option.splits)

lemma postMessage_no_checkpoint: "Checkpoint p \<notin> set (snd (postMessage a m now))"
  by (simp add: postMessage_def Let_def split: list.splits option.splits)

lemma ProcessRecords_empty: "Records input = [] \<Longrightarrow> ProcessRecords a input now = (None, [])"
  by (simp add: ProcessRecords_def)

lemma ProcessRecords_ok:
  assumes "Records input \<noteq> []" "fst (postMessage a input now) = Inr None"
  shows "ProcessRecords a input now =
           (None, snd (postMessage a input now) @
                  [Checkpoint (rec_SequenceNumber (last (Records input)))])"
  using assms
  by (cases "postMessage a input now") (simp add: ProcessRecords_def index_last)

lemma ProcessRecords_send_error:
  assumes "Records input \<noteq> []" "fst (postMessage a input now) = Inr (Some err)"
  shows "ProcessRecords a input now = (None, snd (postMessage a input now))"
  using assms
  by (cases "postMessage a input now") (simp add: ProcessRecords_def)

lemma ProcessRecords_panic:
  assumes "Records input \<noteq> []" "fst (postMessage a input now) = Inl p"
  shows "ProcessRecords a input now = (Some p, snd (postMessage a input now))"
  using assms
  by (cases "postMessage a input now") (simp add: ProcessRecords_def)

subsection \<open>Claim C2\<close>

text \<open>
  C2. For every batch given to \<open>ProcessRecords\<close>: a checkpoint is issued if and only if the
  batch is not empty and the forward to the sink returned no error; the checkpoint then
  follows the one event sent and carries the sequence number of the last record; on an empty
  batch nothing is sent and nothing is checkpointed; on a forward error the function returns
  after the send, without a checkpoint.
\<close>

theorem checkpoint_iff_forwarded:
  "((\<exists>p. Checkpoint p \<in> set (snd (ProcessRecords a input now))) \<longleftrightarrow>
      Records input \<noteq> [] \<and> fst (postMessage a input now) = Inr None) \<and>
   (Records input \<noteq> [] \<and> fst (postMessage a input now) = Inr None \<longrightarrow>
      (\<exists>event. ProcessRecords a input now =
         (None, [Send event, Checkpoint (rec_SequenceNumber (last (Records input)))]))) \<and>
   (Records input = [] \<longrightarrow> ProcessRecords a input now = (None, [])) \<and>
   (\<forall>err. Records input \<noteq> [] \<and> fst (postMessage a input now) = Inr (Some err) \<longrightarrow>
      (\<exists>event. ProcessRecords a input now = (None, [Send event])))"
proof (cases "Records input = []")
  case True
  then show ?thesis by (simp add: ProcessRecords_empty)
next
  case ne: False
  show ?thesis
  proof (cases "fst (postMessage a input now)")
    case (Inl p)
    then have "ProcessRecords a input now = (Some p, snd (postMessage a input now))"
      using ne by (rule ProcessRecords_panic [rotated])
    then show ?thesis using ne Inl by (simp add: postMessage_no_checkpoint)
  next
    case (Inr res)
    then obtain event where ev: "snd (postMessage a input now) = [Send event]"
      using postMessage_acts by blast
    show ?thesis
    proof (cases res)
      case None
      then have "ProcessRecords a input now =
           (None, [Send event, Checkpoint (rec_SequenceNumber (last (Records input)))])"
        using ne Inr ev ProcessRecords_ok [of input a now] by simp
      then show ?thesis using ne Inr None by simp
    next
      case (Some err)
      then have "ProcessRecords a input now = (None, [Send event])"
        using ne Inr ev ProcessRecords_send_error [of input a now err] by simp
      then show ?thesis using ne Inr Some by simp
    qed
  qed
qed

theorem checkpoint_iff_forwarded_witness:
  "(let a = \<lparr>a_StreamName = ''kinesis-name'', a_Region = ''us-west-2'', a_SinkURI = ''http://sink'',
             a_KCLIAMRoleARN = ''kiam-role-arn'', a_CredsFile = [],
             a_streamARN = Some ''arn:aws:kinesis:us-west-2:4444444:stream/kinesis-name'',
             a_ConsumerName = ''source-name'', a_client = (\<lambda>_. None)\<rparr>;
        input = \<lparr>Records = [\<lparr>rec_SequenceNumber = Ptr 0xc000010250 ''1234567'',
                              rec_PartitionKey = Ptr 0xc000010260 ''1'', rec_Data = ''data''\<rparr>],
                 MillisBehindLatest = 1000\<rparr>
    in Records input \<noteq> [] \<and> fst (postMessage a input 0) = Inr None \<and>
       Checkpoint (Ptr 0xc000010250 ''1234567'') \<in> set (snd (ProcessRecords a input 0))) \<and>
   (let a = \<lparr>a_StreamName = ''kinesis-name'', a_Region = ''us-west-2'', a_SinkURI = ''http://sink'',
             a_KCLIAMRoleARN = ''kiam-role-arn'', a_CredsFile = [],
             a_streamARN = Some ''arn:aws:kinesis:us-west-2:4444444:stream/kinesis-name'',
             a_ConsumerName = ''source-name'', a_client = (\<lambda>_. Some (ClientError ''408''))\<rparr>;
        input = \<lparr>Records = [\<lparr>rec_SequenceNumber = Ptr 0xc000010250 ''1234567'',
                              rec_PartitionKey = Ptr 0xc000010260 ''1'', rec_Data = ''data''\<rparr>],
                 MillisBehindLatest = 1000\<rparr>
    in Records input \<noteq> [] \<and> fst (postMessage a input 0) = Inr (Some (ClientError ''408'')) \<and>
       (\<exists>event. ProcessRecords a input 0 = (None, [Send event])))"
  using checkpoint_iff_forwarded
    [of "\<lparr>a_StreamName = ''kinesis-name'', a_Region = ''us-west-2'', a_SinkURI = ''http://sink'',
             a_KCLIAMRoleARN = ''kiam-role-arn'', a_CredsFile = [],
             a_streamARN = Some ''arn:aws:kinesis:us-west-2:4444444:stream/kinesis-name'',
             a_ConsumerName = ''source-name'', a_client = (\<lambda>_. None)\<rparr>"
        "\<lparr>Records = [\<lparr>rec_SequenceNumber = Ptr 0xc000010250 ''1234567'',
                              rec_PartitionKey = Ptr 0xc000010260 ''1'', rec_Data = ''data''\<rparr>],
                 MillisBehindLatest = 1000\<rparr>" 0]
    checkpoint_iff_forwarded
    [of "\<lparr>a_StreamName = ''kinesis-name'', a_Region = ''us-west-2'', a_SinkURI = ''http://sink'',
             a_KCLIAMRoleARN = ''kiam-role-arn'', a_CredsFile = [],
             a_streamARN = Some ''arn:aws:kinesis:us-west-2:4444444:stream/kinesis-name'',
             a_ConsumerName = ''source-name'', a_client = (\<lambda>_. Some (ClientError ''408''))\<rparr>"
        "\<lparr>Records = [\<lparr>rec_SequenceNumber = Ptr 0xc000010250 ''1234567'',
                              rec_PartitionKey = Ptr 0xc000010260 ''1'', rec_Data = ''data''\<rparr>],
                 MillisBehindLatest = 1000\<rparr>" 0]
  by (simp add: postMessage_def ProcessRecords_def index_def Let_def)

subsection \<open>Claim C10\<close>

text \<open>
  C10. \<open>ProcessRecords\<close> reaches \<open>postMessage\<close> and the checkpoint of the last record only
  with a non-empty batch: it never ends in an index-out-of-range panic, an empty batch
  returns at once with nothing sent, and for a non-empty batch the reads of \<open>Records[0]\<close>
  and \<open>Records[len(Records)-1]\<close> are in bounds.
\<close>

theorem process_records_in_bounds:
  "fst (ProcessRecords a input now) \<noteq> Some IndexOutOfRange \<and>
   (Records input = [] \<longrightarrow> ProcessRecords a input now = (None, [])) \<and>
   (Records input \<noteq> [] \<longrightarrow>
      index (Records input) 0 = Inr (hd (Records input)) \<and>
      index (Records input) (int (length (Records input)) - 1) = Inr (last (Records input)))"
proof -
  have "fst (ProcessRecords a input now) \<noteq> Some IndexOutOfRange"
  proof (cases "Records input = []")
    case True
    then show ?thesis by (simp add: ProcessRecords_empty)
  next
    case ne: False
    show ?thesis
    proof (cases "fst (postMessage a input now)")
      case (Inl p)
      then have "p \<noteq> IndexOutOfRange"
        using postMessage_no_index_panic [OF ne, of a now] by auto
      then show ?thesis using ProcessRecords_panic [OF ne Inl] by simp
    next
      case (Inr res)
      then show ?thesis
        using ne ProcessRecords_ok [of input a now] ProcessRecords_send_error [of input a now]
        by (cases res) auto
    qed
  qed
  then show ?thesis
    by (simp add: ProcessRecords_empty index_first index_last)
qed

theorem process_records_in_bounds_witness:
  "Records \<lparr>Records = [], MillisBehindLatest = 0\<rparr> = [] \<and>
   ProcessRecords \<lparr>a_StreamName = [], a_Region = [], a_SinkURI = [], a_KCLIAMRoleARN = [],
                   a_CredsFile = [], a_streamARN = None, a_ConsumerName = [],
                   a_client = (\<lambda>_. None)\<rparr>
                  \<lparr>Records = [], MillisBehindLatest = 0\<rparr> 0 = (None, []) \<and>
   Records \<lparr>Records = [\<lparr>rec_SequenceNumber = Ptr 0xc000010250 ''1234567'',
                         rec_PartitionKey = NilPtr, rec_Data = []\<rparr>],
            MillisBehindLatest = 0\<rparr> \<noteq> [] \<and>
   index (Records \<lparr>Records = [\<lparr>rec_SequenceNumber = Ptr 0xc000010250 ''1234567'',
                                rec_PartitionKey = NilPtr, rec_Data = []\<rparr>],
                   MillisBehindLatest = 0\<rparr>) 0 =
     Inr \<lparr>rec_SequenceNumber = Ptr 0xc000010250 ''1234567'', rec_PartitionKey = NilPtr,
          rec_Data = []\<rparr>"
  using process_records_in_bounds
    [of "\<lparr>a_StreamName = [], a_Region = [], a_SinkURI = [], a_KCLIAMRoleARN = [],
          a_CredsFile = [], a_streamARN = None, a_ConsumerName = [], a_client = (\<lambda>_. None)\<rparr>"
        "\<lparr>Records = [], MillisBehindLatest = 0\<rparr>" 0]
    process_records_in_bounds
    [of "\<lparr>a_StreamName = [], a_Region = [], a_SinkURI = [], a_KCLIAMRoleARN = [],
          a_CredsFile = [], a_streamARN = None, a_ConsumerName = [], a_client = (\<lambda>_. None)\<rparr>"
        "\<lparr>Records = [\<lparr>rec_SequenceNumber = Ptr 0xc000010250 ''1234567'',
                       rec_PartitionKey = NilPtr, rec_Data = []\<rparr>],
          MillisBehindLatest = 0\<rparr>" 0]
  by simp

text \<open>
  The guard is what keeps the panic away: \<open>postMessage\<close> on an empty batch does panic, and
  a panic of another kind (no stream ARN) does pass through \<open>ProcessRecords\<close>.
\<close>

lemma postMessage_unguarded_panics:
  "fst (postMessage a \<lparr>Records = [], MillisBehindLatest = 0\<rparr> now) = Inl IndexOutOfRange"
  by (simp add: postMessage_def)

lemma process_records_nil_arn:
  "ProcessRecords \<lparr>a_StreamName = [], a_Region = [], a_SinkURI = [], a_KCLIAMRoleARN = [],
                   a_CredsFile = [], a_streamARN = None, a_ConsumerName = [],
                   a_client = (\<lambda>_. None)\<rparr>
      \<lparr>Records = [\<lparr>rec_SequenceNumber = NilPtr, rec_PartitionKey = NilPtr, rec_Data = []\<rparr>],
       MillisBehindLatest = 0\<rparr> 0 = (Some NilDereference, [])"
  by (simp add: ProcessRecords_def postMessage_def Let_def)

subsection \<open>Claim C9\<close>

text \<open>
  C9. \<open>Shutdown\<close> issues a checkpoint with a nil sequence number if and only if the reason
  is \<open>TERMINATE\<close>, and that is then its only call; for any other reason it makes no
  checkpoint call at all.
\<close>

theorem shutdown_checkpoint:
  "(Checkpoint NilPtr \<in> set (Shutdown input) \<longleftrightarrow> sd_ShutdownReason input = TERMINATE) \<and>
   (sd_ShutdownReason input = TERMINATE \<longrightarrow> Shutdown input = [Checkpoint NilPtr]) \<and>
   (sd_ShutdownReason input \<noteq> TERMINATE \<longrightarrow> Shutdown input = [])"
  by (simp add: Shutdown_def)

theorem shutdown_checkpoint_witness:
  "sd_ShutdownReason \<lparr>sd_ShutdownReason = TERMINATE\<rparr> = TERMINATE \<and>
   Shutdown \<lparr>sd_ShutdownReason = TERMINATE\<rparr> = [Checkpoint NilPtr] \<and>
   sd_ShutdownReason \<lparr>sd_ShutdownReason = ZOMBIE\<rparr> \<noteq> TERMINATE \<and>
   Shutdown \<lparr>sd_ShutdownReason = ZOMBIE\<rparr> = [] \<and>
   sd_ShutdownReason \<lparr>sd_ShutdownReason = REQUESTED\<rparr> \<noteq> TERMINATE \<and>
   Shutdown \<lparr>sd_ShutdownReason = REQUESTED\<rparr> = []"
  using shutdown_checkpoint [of "\<lparr>sd_ShutdownReason = TERMINATE\<rparr>"]
    shutdown_checkpoint [of "\<lparr>sd_ShutdownReason = ZOMBIE\<rparr>"]
    shutdown_checkpoint [of "\<lparr>sd_ShutdownReason = REQUESTED\<rparr>"]
  by simp




subsection \<open>Claim C5\<close>

lemma postMessage_event_id:
  assumes "Records m = first # rest" "a_streamARN a = Some arn"
  shows "event_ids (snd (postMessage a m now)) =
           [fmt_v_ptr (rec_SequenceNumber first) @ '':'' @ fmt_v_int (length (Records m))]"
  using assms by (simp add: postMessage_def Let_def)

text \<open>
  C5 does not hold of the code. \<open>postMessage\<close> formats \<open>m.Records[0].SequenceNumber\<close>, a
  \<open>*string\<close>, with the verb \<open>%v\<close>, which prints the address held by the pointer and not
  the string it points to. For the batch of \<open>TestPostMessage_ServeHTTP\<close> (one record with
  sequence number 1234567), with the sequence number stored at address \<open>0xc000010250\<close>, the
  event id is \<open>0xc000010250:1\<close>; it is neither \<open>1234567:1\<close> nor \<open>12345671\<close>. The id does
  not change with the sequence number stored at that address, and it does change with the
  address of the same sequence number.
\<close>

theorem event_id_is_pointer_address:
  "event_ids (snd (postMessage
      \<lparr>a_StreamName = ''kinesis-name'', a_Region = ''us-west-2'', a_SinkURI = ''http://sink'',
       a_KCLIAMRoleARN = ''kiam-role-arn'', a_CredsFile = [],
       a_streamARN = Some ''arn:aws:kinesis:us-west-2:4444444:stream/kinesis-name'',
       a_ConsumerName = ''source-name'', a_client = (\<lambda>_. None)\<rparr>
      \<lparr>Records = [\<lparr>rec_SequenceNumber = Ptr 0xc000010250 ''1234567'',
                    rec_PartitionKey = Ptr 0xc000010260 ''1'', rec_Data = ''data''\<rparr>],
       MillisBehindLatest = 1000\<rparr> 0)) = [''0xc000010250:1''] \<and>
   ''0xc000010250:1'' \<noteq> ''1234567:1'' \<and> ''0xc000010250:1'' \<noteq> ''12345671'' \<and>
   event_ids (snd (postMessage
      \<lparr>a_StreamName = ''kinesis-name'', a_Region = ''us-west-2'', a_SinkURI = ''http://sink'',
       a_KCLIAMRoleARN = ''kiam-role-arn'', a_CredsFile = [],
       a_streamARN = Some ''arn:aws:kinesis:us-west-2:4444444:stream/kinesis-name'',
       a_ConsumerName = ''source-name'', a_client = (\<lambda>_. None)\<rparr>
      \<lparr>Records = [\<lparr>rec_SequenceNumber = Ptr 0xc000010250 ''7654321'',
                    rec_PartitionKey = Ptr 0xc000010260 ''1'', rec_Data = ''data''\<rparr>],
       MillisBehindLatest = 1000\<rparr> 0)) = [''0xc000010250:1''] \<and>
   event_ids (snd (postMessage
      \<lparr>a_StreamName = ''kinesis-name'', a_Region = ''us-west-2'', a_SinkURI = ''http://sink'',
       a_KCLIAMRoleARN = ''kiam-role-arn'', a_CredsFile = [],
       a_streamARN = Some ''arn:aws:kinesis:us-west-2:4444444:stream/kinesis-name'',
       a_ConsumerName = ''source-name'', a_client = (\<lambda>_. None)\<rparr>
      \<lparr>Records = [\<lparr>rec_SequenceNumber = Ptr 0xc000010270 ''1234567'',
                    rec_PartitionKey = Ptr 0xc000010260 ''1'', rec_Data = ''data''\<rparr>],
       MillisBehindLatest = 1000\<rparr> 0)) = [''0xc000010270:1'']"
  by (simp add: postMessage_def Let_def fmt_v_ptr_def fmt_v_int_def fmt_nat.simps digit_char_def)




section \<open>Properties of the reconcile controller\<close>

lemma set_removeFinalizer:
  "set (Finalizers (removeFinalizer s)) = set (Finalizers s) - {finalizerName}"
  by (auto simp: removeFinalizer_def sets_List_def sets_Delete_def sets_NewString_def)

lemma removeFinalizer_frame:
  "removeFinalizer s = s\<lparr>Finalizers := Finalizers (removeFinalizer s)\<rparr>"
  by (simp add: removeFinalizer_def)

subsection \<open>Claim C8\<close>

text \<open>
  C8. For every Source with a deletion timestamp, \<open>Reconcile\<close> returns nil, makes no call
  at all (no sink lookup, no list, create or update), and leaves a Source that differs from
  the given one in its finalizer list only: this controller's finalizer is gone from it and
  the other finalizers are the same set; name, namespace, UID, deletion timestamp, spec and
  status (conditions and sink URI) are unchanged.
\<close>

theorem reconcile_deleted_source:
  assumes "DeletionTimestamp src \<noteq> None"
  shows "case Reconcile r src of (src', err, calls) \<Rightarrow>
           err = None \<and> calls = [] \<and>
           finalizerName \<notin> set (Finalizers src') \<and>
           set (Finalizers src') = set (Finalizers src) - {finalizerName} \<and>
           src' = src\<lparr>Finalizers := Finalizers src'\<rparr> \<and>
           Spec src' = Spec src \<and> Status src' = Status src \<and>
           Conditions (Status src') = Conditions (Status src) \<and>
           SinkURI (Status src') = SinkURI (Status src)"
proof -
  have r: "Reconcile r src = (removeFinalizer src, None, [])"
    using assms by (simp add: Reconcile_def)
  have f: "removeFinalizer src = src\<lparr>Finalizers := Finalizers (removeFinalizer src)\<rparr>"
    by (rule removeFinalizer_frame)
  have "Spec (removeFinalizer src) = Spec src" "Status (removeFinalizer src) = Status src"
    by (simp_all add: removeFinalizer_def)
  then show ?thesis
    using r f set_removeFinalizer [of src] by simp
qed

theorem reconcile_deleted_source_witness:
  "(let src = \<lparr>Name = ''test-kinesis-source'', Namespace = ''testnamespace'', UID = ''1234-5678-90'',
               DeletionTimestamp = Some 1, Finalizers = [''z-other'', ''aws-kinesis-source-controller''],
               Spec = \<lparr>StreamName = ''kinesis-name'', Region = ''us-west-2'',
                       AwsCredsSecret = \<lparr>sks_Name = ''kinesis-secret-name'', sks_Key = ''aws-secret-key''\<rparr>,
                       KIAMOptions = \<lparr>AssignedIAMRole = ''ASSIGNED-IAM-ROLE'', KCLIAMRoleARN = ''ROLE-ARN''\<rparr>,
                       Sink = Some \<lparr>ref_Kind = ''Sink'', ref_Name = ''testsink'',
                                    ref_APIVersion = ''duck.knative.dev/v1alpha1''\<rparr>,
                       ServiceAccountName = ''source-svc-acct''\<rparr>,
               Status = \<lparr>ObservedGeneration = 0, Conditions = [], SinkURI = []\<rparr>\<rparr>;
        r = \<lparr>client_GetSinkURI = (\<lambda>_ _. Inl NotFound), client_List = (\<lambda>_ _. Inr []),
             client_Update = (\<lambda>_. None), client_Create = (\<lambda>_. None),
             scheme_gvk = Some (''sources.eventing.knative.dev/v1alpha1'', ''KinesisSource''),
             receiveAdapterImage = ''test-ra-image''\<rparr>
    in DeletionTimestamp src \<noteq> None \<and>
       Reconcile r src = (src\<lparr>Finalizers := [''z-other'']\<rparr>, None, []))"
  using reconcile_deleted_source
    [of "\<lparr>Name = ''test-kinesis-source'', Namespace = ''testnamespace'', UID = ''1234-5678-90'',
               DeletionTimestamp = Some 1, Finalizers = [''z-other'', ''aws-kinesis-source-controller''],
               Spec = \<lparr>StreamName = ''kinesis-name'', Region = ''us-west-2'',
                       AwsCredsSecret = \<lparr>sks_Name = ''kinesis-secret-name'', sks_Key = ''aws-secret-key''\<rparr>,
                       KIAMOptions = \<lparr>AssignedIAMRole = ''ASSIGNED-IAM-ROLE'', KCLIAMRoleARN = ''ROLE-ARN''\<rparr>,
                       Sink = Some \<lparr>ref_Kind = ''Sink'', ref_Name = ''testsink'',
                                    ref_APIVersion = ''duck.knative.dev/v1alpha1''\<rparr>,
                       ServiceAccountName = ''source-svc-acct''\<rparr>,
               Status = \<lparr>ObservedGeneration = 0, Conditions = [], SinkURI = []\<rparr>\<rparr>"
        "\<lparr>client_GetSinkURI = (\<lambda>_ _. Inl NotFound), client_List = (\<lambda>_ _. Inr []),
             client_Update = (\<lambda>_. None), client_Create = (\<lambda>_. None),
             scheme_gvk = Some (''sources.eventing.knative.dev/v1alpha1'', ''KinesisSource''),
             receiveAdapterImage = ''test-ra-image''\<rparr>"]
  by (simp add: Reconcile_def removeFinalizer_def sets_List_def sets_Delete_def
      sets_NewString_def finalizerName_def controllerAgentName_def)

subsection \<open>Claim C7\<close>

lemma distinct_InitializeConditions:
  "distinct (map cond_Type cs) \<Longrightarrow> distinct (map cond_Type (InitializeConditions_impl condSet cs))"
  by (simp add: InitializeConditions_impl_def InitializeCondition_def condSet_happy
      condSet_dependents distinct_SetCondition split: option.splits)

lemma MarkFalse_dependent:
  assumes "distinct (map cond_Type cs)" "t = ''SinkProvided'' \<or> t = ''Deployed''"
  shows "GetCondition (MarkFalse condSet t reason message cs) t =
           Some \<lparr>cond_Type = t, cond_Status = ConditionFalse,
                 cond_Severity = ConditionSeverityError,
                 cond_Reason = reason, cond_Message = message\<rparr> \<and>
         GetCondition (MarkFalse condSet t reason message cs) ''Ready'' =
           Some \<lparr>cond_Type = ''Ready'', cond_Status = ConditionFalse,
                 cond_Severity = ConditionSeverityError,
                 cond_Reason = reason, cond_Message = message\<rparr>"
  using assms
  by (auto simp: MarkFalse_def condSet_happy condSet_dependents GetCondition_SetCondition
      distinct_SetCondition severity_def isTerminal_def)

text \<open>
  C7. For every pass on a Source that is not being deleted, whose status holds at most one
  condition per type, and whose sink resolution fails with an error: that error is returned;
  SinkProvided is False with reason \<open>NotFound\<close> and an empty message; Ready is False with
  the same reason, hence not True, and \<open>IsReady\<close> is false; the only call made is the sink
  lookup.
\<close>

theorem reconcile_sink_failure:
  assumes "DeletionTimestamp src = None"
    and "client_GetSinkURI r (Sink (Spec src)) (Namespace src) = Inl e"
    and "distinct (map cond_Type (Conditions (Status src)))"
  shows "case Reconcile r src of (src', err, calls) \<Rightarrow>
           err = Some e \<and> calls = [GetSinkCall] \<and>
           Status_GetCondition (Status src') KinesisSourceConditionSinkProvided =
             Some \<lparr>cond_Type = KinesisSourceConditionSinkProvided, cond_Status = ConditionFalse,
                   cond_Severity = ConditionSeverityError,
                   cond_Reason = ''NotFound'', cond_Message = []\<rparr> \<and>
           status_of (Status src') KinesisSourceConditionReady = Some ConditionFalse \<and>
           status_of (Status src') KinesisSourceConditionReady \<noteq> Some ConditionTrue \<and>
           \<not> IsReady (Status src')"
proof -
  let ?cs = "InitializeConditions_impl condSet (Conditions (Status src))"
  let ?st = "MarkNoSink ''NotFound'' [] (InitializeConditions (Status src))"
  have d: "distinct (map cond_Type ?cs)"
    using assms(3) by (rule distinct_InitializeConditions)
  have sink: "Sink (Spec (addFinalizer src)) = Sink (Spec src)"
    and ns: "Namespace (addFinalizer src) = Namespace src"
    and st: "Status (addFinalizer src) = Status src"
    by (simp_all add: addFinalizer_def)
  have rec: "Reconcile r src =
       ((addFinalizer src)\<lparr>Status := ?st\<rparr>, Some e, [GetSinkCall])"
    using assms(1,2) by (simp add: Reconcile_def Let_def sink ns st)
  have cs: "Conditions ?st = MarkFalse condSet ''SinkProvided'' ''NotFound'' [] ?cs"
    by (simp add: MarkNoSink_def InitializeConditions_def KinesisSourceConditionSinkProvided_def)
  have g: "GetCondition (Conditions ?st) ''SinkProvided'' =
             Some \<lparr>cond_Type = ''SinkProvided'', cond_Status = ConditionFalse,
                   cond_Severity = ConditionSeverityError,
                   cond_Reason = ''NotFound'', cond_Message = []\<rparr>"
    and h: "GetCondition (Conditions ?st) ''Ready'' =
             Some \<lparr>cond_Type = ''Ready'', cond_Status = ConditionFalse,
                   cond_Severity = ConditionSeverityError,
                   cond_Reason = ''NotFound'', cond_Message = []\<rparr>"
    using MarkFalse_dependent [OF d, of "''SinkProvided''" "''NotFound''" "[]"]
    unfolding cs by simp_all
  show ?thesis
    unfolding rec
    using g h
    by (simp add: Status_GetCondition_def status_of_def cond_status_def IsReady_def IsHappy_def
        IsTrue_def condSet_happy KinesisSourceConditionSinkProvided_def
        KinesisSourceConditionReady_def ConditionReady_def)
qed

theorem reconcile_sink_failure_witness:
  "(let src = \<lparr>Name = ''test-kinesis-source'', Namespace = ''testnamespace'', UID = ''1234-5678-90'',
               DeletionTimestamp = None, Finalizers = [],
               Spec = \<lparr>StreamName = ''kinesis-name'', Region = ''us-west-2'',
                       AwsCredsSecret = \<lparr>sks_Name = ''kinesis-secret-name'', sks_Key = ''aws-secret-key''\<rparr>,
                       KIAMOptions = \<lparr>AssignedIAMRole = ''ASSIGNED-IAM-ROLE'', KCLIAMRoleARN = ''ROLE-ARN''\<rparr>,
                       Sink = Some \<lparr>ref_Kind = ''Sink'', ref_Name = ''testsink'',
                                    ref_APIVersion = ''duck.knative.dev/v1alpha1''\<rparr>,
                       ServiceAccountName = ''source-svc-acct''\<rparr>,
               Status = \<lparr>ObservedGeneration = 0, Conditions = [], SinkURI = []\<rparr>\<rparr>;
        r = \<lparr>client_GetSinkURI = (\<lambda>_ _. Inl NotFound), client_List = (\<lambda>_ _. Inr []),
             client_Update = (\<lambda>_. None), client_Create = (\<lambda>_. None),
             scheme_gvk = Some (''sources.eventing.knative.dev/v1alpha1'', ''KinesisSource''),
             receiveAdapterImage = ''test-ra-image''\<rparr>
    in DeletionTimestamp src = None \<and>
       client_GetSinkURI r (Sink (Spec src)) (Namespace src) = Inl NotFound \<and>
       distinct (map cond_Type (Conditions (Status src))) \<and>
       fst (snd (Reconcile r src)) = Some NotFound \<and>
       Finalizers (fst (Reconcile r src)) = [''aws-kinesis-source-controller''] \<and>
       status_of (Status (fst (Reconcile r src))) KinesisSourceConditionSinkProvided
         = Some ConditionFalse \<and>
       \<not> IsReady (Status (fst (Reconcile r src))))"
  using reconcile_sink_failure
    [of "\<lparr>Name = ''test-kinesis-source'', Namespace = ''testnamespace'', UID = ''1234-5678-90'',
               DeletionTimestamp = None, Finalizers = [],
               Spec = \<lparr>StreamName = ''kinesis-name'', Region = ''us-west-2'',
                       AwsCredsSecret = \<lparr>sks_Name = ''kinesis-secret-name'', sks_Key = ''aws-secret-key''\<rparr>,
                       KIAMOptions = \<lparr>AssignedIAMRole = ''ASSIGNED-IAM-ROLE'', KCLIAMRoleARN = ''ROLE-ARN''\<rparr>,
                       Sink = Some \<lparr>ref_Kind = ''Sink'', ref_Name = ''testsink'',
                                    ref_APIVersion = ''duck.knative.dev/v1alpha1''\<rparr>,
                       ServiceAccountName = ''source-svc-acct''\<rparr>,
               Status = \<lparr>ObservedGeneration = 0, Conditions = [], SinkURI = []\<rparr>\<rparr>"
        "\<lparr>client_GetSinkURI = (\<lambda>_ _. Inl NotFound), client_List = (\<lambda>_ _. Inr []),
             client_Update = (\<lambda>_. None), client_Create = (\<lambda>_. None),
             scheme_gvk = Some (''sources.eventing.knative.dev/v1alpha1'', ''KinesisSource''),
             receiveAdapterImage = ''test-ra-image''\<rparr>" NotFound]
  by (simp add: Reconcile_def addFinalizer_def sets_List_def sets_Insert_def sets_NewString_def
      finalizerName_def controllerAgentName_def status_eval)




subsection \<open>The comparison of pod specs\<close>

lemma derive_string_refl: "derive_string a a"
  by (simp add: derive_string_def)

lemma list_all_zip_refl: "(\<And>x. f x x) \<Longrightarrow> list_all (\<lambda>(x, y). f x y) (zip xs xs)"
  by (induction xs) simp_all

lemma derive_list_refl: "(\<And>x. f x x) \<Longrightarrow> derive_list f xs xs"
  by (simp add: derive_list_def list_all_zip_refl)

lemma derive_ptr_refl: "(\<And>x. f x x) \<Longrightarrow> derive_ptr f p p"
  by (simp add: derive_ptr_def split: option.splits)

lemma DeepDerivative_refl: "DeepDerivative p p"
  by (simp add: DeepDerivative_def derive_Container_def derive_Volume_def derive_EnvVar_def
      derive_VolumeMount_def derive_string_refl derive_list_refl derive_ptr_refl)

lemma env_changed_refl: "\<not> env_changed cs cs"
  by (induction cs) (simp_all add: DeepEqual_def)

lemma podSpecChanged_refl: "\<not> podSpecChanged p p"
  by (simp add: podSpecChanged_def DeepDerivative_refl env_changed_refl)

lemma expected_frame:
  assumes "Name s' = Name s" "Namespace s' = Namespace s" "Spec s' = Spec s"
  shows "MakeReceiveAdapter (adapterArgs r s' uri) = MakeReceiveAdapter (adapterArgs r s uri)"
  using assms
  by (simp add: MakeReceiveAdapter_def adapterArgs_def makeDeploymentSpec_def getLabels_def Let_def)

lemma getReceiveAdapter_frame:
  assumes "Name s' = Name s" "Namespace s' = Namespace s" "UID s' = UID s"
  shows "getReceiveAdapter r s' = getReceiveAdapter r s"
proof -
  have "(\<lambda>d. IsControlledBy d s') = (\<lambda>d. IsControlledBy d s)"
    using assms by (auto simp: IsControlledBy_def fun_eq_iff split: option.splits)
  then show ?thesis
    using assms by (simp add: getReceiveAdapter_def getLabels_def split: sum.splits)
qed

lemma no_credentials_frame: "Spec s' = Spec s \<Longrightarrow> no_credentials s' = no_credentials s"
  by (simp add: no_credentials_def)

text \<open>What \<open>createReceiveAdapter\<close> does when the owned workload already has the desired pod spec.\<close>

lemma createReceiveAdapter_matching:
  assumes "getReceiveAdapter r src = Inr ra"
    and "tpl_Spec (ds_Template (dep_Spec ra)) =
         tpl_Spec (ds_Template (dep_Spec (MakeReceiveAdapter (adapterArgs r src uri))))"
  shows "createReceiveAdapter r src uri =
           (if no_credentials src
            then (None, Some (Errorf ''Configuration error''), [ListCall (Namespace src)])
            else (Some ra, None, [ListCall (Namespace src)]))"
  using assms by (simp add: createReceiveAdapter_def lookup_failed_def Let_def podSpecChanged_refl)

lemma createReceiveAdapter_no_credentials:
  assumes "no_credentials src"
    and "\<not> lookup_failed r src"
  shows "createReceiveAdapter r src uri =
           (None, Some (Errorf ''Configuration error''), [ListCall (Namespace src)])"
  using assms by (simp add: createReceiveAdapter_def Let_def)

lemma lookup_failed_iff:
  "lookup_failed r src \<longleftrightarrow>
     (\<exists>e. client_List r (Namespace src) (getLabels src) = Inl e \<and> \<not> IsNotFound e)"
  by (auto simp: lookup_failed_def getReceiveAdapter_def IsNotFound_def
      split: sum.splits option.splits)



lemma SetControllerReference_frame:
  assumes "Name s' = Name s" "UID s' = UID s"
  shows "SetControllerReference s' d g = SetControllerReference s d g"
  using assms by (simp add: SetControllerReference_def split: option.splits)

lemma createReceiveAdapter_frame:
  assumes "Name s' = Name s" "Namespace s' = Namespace s" "UID s' = UID s" "Spec s' = Spec s"
  shows "createReceiveAdapter r s' uri = createReceiveAdapter r s uri"
proof -
  have 1: "getReceiveAdapter r s' = getReceiveAdapter r s"
    by (rule getReceiveAdapter_frame) (simp_all add: assms)
  have 2: "MakeReceiveAdapter (adapterArgs r s' uri) = MakeReceiveAdapter (adapterArgs r s uri)"
    by (rule expected_frame) (simp_all add: assms)
  have 3: "no_credentials s' = no_credentials s"
    by (rule no_credentials_frame) (simp add: assms)
  have 4: "\<And>d. SetControllerReference s' d (scheme_gvk r) = SetControllerReference s d (scheme_gvk r)"
    by (rule SetControllerReference_frame) (simp_all add: assms)
  have 5: "lookup_failed r s' = lookup_failed r s"
    by (simp add: lookup_failed_def 1)
  show ?thesis
    unfolding createReceiveAdapter_def 1 2 3 4 5 assms(2) ..
qed

lemma Reconcile_resolved:
  assumes "DeletionTimestamp src = None"
    and "client_GetSinkURI r (Sink (Spec src)) (Namespace src) = Inr uri"
  shows "Reconcile r src =
           (case createReceiveAdapter r src uri of
              (_, Some err, calls) \<Rightarrow>
                ((addFinalizer src)\<lparr>Status := MarkSink uri (InitializeConditions (Status src))\<rparr>,
                 Some err, GetSinkCall # calls)
            | (_, None, calls) \<Rightarrow>
                ((addFinalizer src)\<lparr>Status := MarkDeployed (MarkSink uri (InitializeConditions (Status src)))\<rparr>,
                 None, GetSinkCall # calls))"
proof -
  let ?src3 = "(addFinalizer src)\<lparr>Status := MarkSink uri (InitializeConditions (Status src))\<rparr>"
  have f: "Name ?src3 = Name src" "Namespace ?src3 = Namespace src" "UID ?src3 = UID src"
    "Spec ?src3 = Spec src"
    by (simp_all add: addFinalizer_def)
  have c: "createReceiveAdapter r ?src3 uri = createReceiveAdapter r src uri"
    using f by (rule createReceiveAdapter_frame)
  have a: "Sink (Spec (addFinalizer src)) = Sink (Spec src)"
    "Namespace (addFinalizer src) = Namespace src" "Status (addFinalizer src) = Status src"
    by (simp_all add: addFinalizer_def)
  show ?thesis
    using assms by (simp add: Reconcile_def Let_def a c split: prod.splits option.splits)
qed

lemma getReceiveAdapter_found:
  assumes "client_List r (Namespace src) (getLabels src) = Inr items"
    and "find (\<lambda>d. IsControlledBy d src) items = Some ra"
  shows "getReceiveAdapter r src = Inr ra"
  using assms by (simp add: getReceiveAdapter_def)

subsection \<open>Claim C3\<close>

text \<open>
  C3, as the code has it. \<open>getReceiveAdapter\<close> selects the first listed workload that the
  Source controls. When the sink resolves, the listing returns the workloads, that first
  controlled workload exists, and its pod spec is the pod spec of the desired workload (what
  \<open>MakeReceiveAdapter\<close> builds from the Source, the sink URI and the labels), a pass makes no
  create call and no update call; for a Source that is not being deleted and has credentials
  configured, the pass succeeds and its only calls are the sink lookup and the listing.
\<close>

theorem reconcile_matching_workload:
  assumes "client_GetSinkURI r (Sink (Spec src)) (Namespace src) = Inr uri"
    and "client_List r (Namespace src) (getLabels src) = Inr items"
    and "find (\<lambda>d. IsControlledBy d src) items = Some ra"
    and "tpl_Spec (ds_Template (dep_Spec ra)) =
         tpl_Spec (ds_Template (dep_Spec (MakeReceiveAdapter (adapterArgs r src uri))))"
  shows "case Reconcile r src of (src', err, calls) \<Rightarrow>
           \<not> list_ex is_create calls \<and> \<not> list_ex is_update calls \<and>
           (DeletionTimestamp src = None \<and> \<not> no_credentials src \<longrightarrow>
              err = None \<and> calls = [GetSinkCall, ListCall (Namespace src)])"
proof (cases "DeletionTimestamp src = None")
  case False
  then show ?thesis by (simp add: Reconcile_def)
next
  case True
  have g: "getReceiveAdapter r src = Inr ra"
    using assms(2,3) by (rule getReceiveAdapter_found)
  have c: "createReceiveAdapter r src uri =
           (if no_credentials src
            then (None, Some (Errorf ''Configuration error''), [ListCall (Namespace src)])
            else (Some ra, None, [ListCall (Namespace src)]))"
    using g assms(4) by (rule createReceiveAdapter_matching)
  show ?thesis
    unfolding Reconcile_resolved [OF True assms(1)] c by simp
qed




lemmas fixture_defs =
  test_getSource_def test_kiamSource_def test_bareSource_def addressableURI_def
  test_reconciler_def test_ownedAdapter_def test_getReceiveAdapter_def

lemmas reconcile_eval =
  Reconcile_def createReceiveAdapter_def getReceiveAdapter_def IsControlledBy_def
  GetControllerOf_def MakeReceiveAdapter_def makeDeploymentSpec_def adapterArgs_def
  getLabels_def no_credentials_def podSpecChanged_def DeepDerivative_def derive_Container_def
  derive_Volume_def derive_VolumeMount_def derive_EnvVar_def derive_list_def derive_ptr_def
  derive_string_def DeepEqual_def SetControllerReference_def IsNotFound_def lookup_failed_def
  addFinalizer_def
  removeFinalizer_def sets_List_def sets_Insert_def sets_Delete_def sets_NewString_def
  finalizerName_def controllerAgentName_def env_lookup_def

theorem reconcile_matching_workload_witness:
  "client_GetSinkURI (test_reconciler (Inr addressableURI) (Inr [test_ownedAdapter]))
      (Sink (Spec test_getSource)) (Namespace test_getSource) = Inr addressableURI \<and>
   client_List (test_reconciler (Inr addressableURI) (Inr [test_ownedAdapter]))
      (Namespace test_getSource) (getLabels test_getSource) = Inr [test_ownedAdapter] \<and>
   find (\<lambda>d. IsControlledBy d test_getSource) [test_ownedAdapter] = Some test_ownedAdapter \<and>
   tpl_Spec (ds_Template (dep_Spec test_ownedAdapter)) =
     tpl_Spec (ds_Template (dep_Spec (MakeReceiveAdapter
        (adapterArgs (test_reconciler (Inr addressableURI) (Inr [test_ownedAdapter]))
           test_getSource addressableURI)))) \<and>
   DeletionTimestamp test_getSource = None \<and> \<not> no_credentials test_getSource \<and>
   snd (Reconcile (test_reconciler (Inr addressableURI) (Inr [test_ownedAdapter])) test_getSource)
     = (None, [GetSinkCall, ListCall ''testnamespace''])"
proof -
  let ?r = "test_reconciler (Inr addressableURI) (Inr [test_ownedAdapter])"
  have h1: "client_GetSinkURI ?r (Sink (Spec test_getSource)) (Namespace test_getSource)
              = Inr addressableURI"
    by (simp add: test_reconciler_def)
  have h2: "client_List ?r (Namespace test_getSource) (getLabels test_getSource)
              = Inr [test_ownedAdapter]"
    by (simp add: test_reconciler_def)
  have h3: "find (\<lambda>d. IsControlledBy d test_getSource) [test_ownedAdapter] = Some test_ownedAdapter"
    by (simp add: IsControlledBy_def GetControllerOf_def test_ownedAdapter_def test_getSource_def)
  have h4: "tpl_Spec (ds_Template (dep_Spec test_ownedAdapter)) =
     tpl_Spec (ds_Template (dep_Spec (MakeReceiveAdapter (adapterArgs ?r test_getSource addressableURI))))"
    by (simp add: test_ownedAdapter_def MakeReceiveAdapter_def adapterArgs_def test_reconciler_def Let_def)
  have h5: "DeletionTimestamp test_getSource = None" "\<not> no_credentials test_getSource"
    by (simp_all add: test_getSource_def no_credentials_def)
  have ns: "Namespace test_getSource = ''testnamespace''"
    by (simp add: test_getSource_def)
  show ?thesis
    using reconcile_matching_workload [OF h1 h2 h3 h4] h1 h2 h3 h4 h5
    by (auto simp: ns split: prod.splits)
qed


text \<open>
  C3 as stated fails when the matching workload is not the first one the Source controls in
  the listing. With the listing made of \<open>getReceiveAdapter()\<close> of the tests (controlled by
  the Source, empty spec) followed by the workload that matches the desired spec, an owned
  workload matches, yet the pass compares the first one, finds it changed, and issues an
  update of it with the desired pod spec.
\<close>

theorem matching_workload_not_first_counterexample:
  "IsControlledBy test_getReceiveAdapter test_getSource \<and>
   IsControlledBy test_ownedAdapter test_getSource \<and>
   test_ownedAdapter \<in> set [test_getReceiveAdapter, test_ownedAdapter] \<and>
   tpl_Spec (ds_Template (dep_Spec test_ownedAdapter)) =
     tpl_Spec (ds_Template (dep_Spec (MakeReceiveAdapter
        (adapterArgs (test_reconciler (Inr addressableURI)
                        (Inr [test_getReceiveAdapter, test_ownedAdapter]))
           test_getSource addressableURI)))) \<and>
   fst (snd (Reconcile (test_reconciler (Inr addressableURI)
                          (Inr [test_getReceiveAdapter, test_ownedAdapter])) test_getSource)) = None \<and>
   map is_update (snd (snd (Reconcile (test_reconciler (Inr addressableURI)
                          (Inr [test_getReceiveAdapter, test_ownedAdapter])) test_getSource))) =
     [False, False, True] \<and>
   list_ex is_update (snd (snd (Reconcile (test_reconciler (Inr addressableURI)
                          (Inr [test_getReceiveAdapter, test_ownedAdapter])) test_getSource)))"
proof -
  let ?r = "test_reconciler (Inr addressableURI) (Inr [test_getReceiveAdapter, test_ownedAdapter])"
  have o1: "IsControlledBy test_getReceiveAdapter test_getSource"
    by (simp add: IsControlledBy_def GetControllerOf_def test_getReceiveAdapter_def
        test_getSource_def)
  have o2: "IsControlledBy test_ownedAdapter test_getSource"
    by (simp add: IsControlledBy_def GetControllerOf_def test_ownedAdapter_def test_getSource_def)
  have m: "tpl_Spec (ds_Template (dep_Spec test_ownedAdapter)) =
     tpl_Spec (ds_Template (dep_Spec (MakeReceiveAdapter
        (adapterArgs ?r test_getSource addressableURI))))"
    by (simp add: test_ownedAdapter_def MakeReceiveAdapter_def adapterArgs_def
        test_reconciler_def Let_def)
  have g: "getReceiveAdapter ?r test_getSource = Inr test_getReceiveAdapter"
    using o1 by (simp add: getReceiveAdapter_def test_reconciler_def)
  have ch: "podSpecChanged (tpl_Spec (ds_Template (dep_Spec test_getReceiveAdapter)))
              (tpl_Spec (ds_Template (dep_Spec (MakeReceiveAdapter
                 (adapterArgs ?r test_getSource addressableURI)))))"
    by (simp add: podSpecChanged_def DeepDerivative_def derive_list_def derive_string_def
        test_getReceiveAdapter_def MakeReceiveAdapter_def makeDeploymentSpec_def adapterArgs_def
        test_getSource_def Let_def)
  have nc: "\<not> no_credentials test_getSource"
    by (simp add: no_credentials_def test_getSource_def)
  have u: "client_Update ?r = (\<lambda>_. None)"
    by (simp add: test_reconciler_def)
  have c: "snd (createReceiveAdapter ?r test_getSource addressableURI) =
             (None, [ListCall (Namespace test_getSource),
                     UpdateCall (test_getReceiveAdapter\<lparr>dep_Spec :=
                        (dep_Spec test_getReceiveAdapter)\<lparr>ds_Template :=
                           (ds_Template (dep_Spec test_getReceiveAdapter))\<lparr>tpl_Spec :=
                              tpl_Spec (ds_Template (dep_Spec (MakeReceiveAdapter
                                (adapterArgs ?r test_getSource addressableURI))))\<rparr>\<rparr>\<rparr>)])"
    using ch nc by (simp add: createReceiveAdapter_def lookup_failed_def g u Let_def)
  have d: "DeletionTimestamp test_getSource = None"
    by (simp add: test_getSource_def)
  have s: "client_GetSinkURI ?r (Sink (Spec test_getSource)) (Namespace test_getSource)
             = Inr addressableURI"
    by (simp add: test_reconciler_def)
  have r: "snd (Reconcile ?r test_getSource) =
             (None, [GetSinkCall, ListCall (Namespace test_getSource),
                     UpdateCall (test_getReceiveAdapter\<lparr>dep_Spec :=
                        (dep_Spec test_getReceiveAdapter)\<lparr>ds_Template :=
                           (ds_Template (dep_Spec test_getReceiveAdapter))\<lparr>tpl_Spec :=
                              tpl_Spec (ds_Template (dep_Spec (MakeReceiveAdapter
                                (adapterArgs ?r test_getSource addressableURI))))\<rparr>\<rparr>\<rparr>)])"
    using c unfolding Reconcile_resolved [OF d s]
    by (cases "createReceiveAdapter ?r test_getSource addressableURI") auto
  show ?thesis
    using o1 o2 m r by simp
qed

subsection \<open>Claim C4\<close>

text \<open>
  C4, as the code has it. The credential check of a pass rejects a Source with no credential
  configuration at all: when the secret name, the secret key, the assigned role
  and the role ARN are all empty, the Source is not being deleted, the sink resolves and the
  lookup of the existing workload does not fail (its listing returns no error other than
  NotFound), the pass returns the error
  \<open>Configuration error\<close>, makes no create or update call, and leaves the status as it was
  before that step, that is as \<open>InitializeConditions\<close> and \<open>MarkSink\<close> made it.
\<close>

theorem reconcile_no_credentials:
  assumes "DeletionTimestamp src = None"
    and "client_GetSinkURI r (Sink (Spec src)) (Namespace src) = Inr uri"
    and "no_credentials src"
    and "\<not> lookup_failed r src"
  shows "createReceiveAdapter r src uri =
           (None, Some (Errorf ''Configuration error''), [ListCall (Namespace src)]) \<and>
         Reconcile r src =
           ((addFinalizer src)\<lparr>Status := MarkSink uri (InitializeConditions (Status src))\<rparr>,
            Some (Errorf ''Configuration error''), [GetSinkCall, ListCall (Namespace src)])"
proof -
  have c: "createReceiveAdapter r src uri =
           (None, Some (Errorf ''Configuration error''), [ListCall (Namespace src)])"
    using assms(3,4) by (rule createReceiveAdapter_no_credentials)
  show ?thesis
    unfolding Reconcile_resolved [OF assms(1,2)] c by simp
qed

theorem reconcile_no_credentials_witness:
  "DeletionTimestamp test_bareSource = None \<and>
   client_GetSinkURI (test_reconciler (Inr addressableURI) (Inr []))
      (Sink (Spec test_bareSource)) (Namespace test_bareSource) = Inr addressableURI \<and>
   no_credentials test_bareSource \<and>
   \<not> lookup_failed (test_reconciler (Inr addressableURI) (Inr [])) test_bareSource \<and>
   snd (Reconcile (test_reconciler (Inr addressableURI) (Inr [])) test_bareSource) =
     (Some (Errorf ''Configuration error''), [GetSinkCall, ListCall ''testnamespace'']) \<and>
   Status (fst (Reconcile (test_reconciler (Inr addressableURI) (Inr [])) test_bareSource)) =
     MarkSink addressableURI (InitializeConditions (Status test_bareSource))"
proof -
  let ?r = "test_reconciler (Inr addressableURI) (Inr [])"
  have h1: "DeletionTimestamp test_bareSource = None"
    by (simp add: test_bareSource_def test_getSource_def)
  have h2: "client_GetSinkURI ?r (Sink (Spec test_bareSource)) (Namespace test_bareSource)
              = Inr addressableURI"
    by (simp add: test_reconciler_def)
  have h3: "no_credentials test_bareSource"
    by (simp add: test_bareSource_def test_getSource_def no_credentials_def)
  have h4: "\<not> lookup_failed ?r test_bareSource"
    by (simp add: lookup_failed_iff test_reconciler_def)
  have ns: "Namespace test_bareSource = ''testnamespace''"
    by (simp add: test_bareSource_def test_getSource_def)
  show ?thesis
    using reconcile_no_credentials [OF h1 h2 h3 h4] h1 h2 h3 h4
    by (simp add: ns)
qed

text \<open>
  C4 as stated fails: \<open>getSource()\<close> of the repository's tests has both a secret reference
  and a role pair, so it does not have exactly one of them, and yet the receive adapter is
  computed and created without error (the test case \<open>successful create\<close>), and the pass
  ends with Deployed and Ready True.
\<close>

theorem both_credentials_counterexample:
  "sks_Name (AwsCredsSecret (Spec test_getSource)) \<noteq> [] \<and>
   sks_Key (AwsCredsSecret (Spec test_getSource)) \<noteq> [] \<and>
   AssignedIAMRole (KIAMOptions (Spec test_getSource)) \<noteq> [] \<and>
   KCLIAMRoleARN (KIAMOptions (Spec test_getSource)) \<noteq> [] \<and>
   fst (snd (createReceiveAdapter (test_reconciler (Inr addressableURI) (Inr []))
               test_getSource addressableURI)) = None \<and>
   fst (snd (Reconcile (test_reconciler (Inr addressableURI) (Inr [])) test_getSource)) = None \<and>
   IsReady (Status (fst (Reconcile (test_reconciler (Inr addressableURI) (Inr [])) test_getSource)))"
  by (simp add: fixture_defs reconcile_eval status_eval)

subsection \<open>Claim C6\<close>

text \<open>
  C6, as the code has it. For the workload generated for a Source: when the secret name and
  the secret key are both set, it has the secret volume \<open>aws-credentials\<close>, mounted at
  \<open>/var/secrets/aws\<close>, sets \<open>AWS_APPLICATION_CREDENTIALS\<close> to that path joined with the key,
  and has neither the role annotation nor \<open>KCL_IAM_ROLE_ARN\<close>, whatever the KIAM options
  are; when the secret name or key is empty (so for every Source with a role configuration
  only), it has no volume and no mount, is annotated with the assigned role, sets
  \<open>KCL_IAM_ROLE_ARN\<close> and does not set \<open>AWS_APPLICATION_CREDENTIALS\<close>; and when all four
  fields are empty and the lookup of the existing workload does not fail (its listing
  returns no error other than NotFound), \<open>createReceiveAdapter\<close> fails with
  \<open>Configuration error\<close> after the listing alone.
\<close>

theorem workload_credentials:
  "(sks_Name (AwsCredsSecret (Spec src)) \<noteq> [] \<and> sks_Key (AwsCredsSecret (Spec src)) \<noteq> [] \<longrightarrow>
      pod_Volumes (tpl_Spec (ds_Template (dep_Spec (MakeReceiveAdapter (adapterArgs r src uri))))) =
        [\<lparr>vol_Name = ''aws-credentials'', vol_Secret = Some (sks_Name (AwsCredsSecret (Spec src)))\<rparr>] \<and>
      tpl_Annotations (ds_Template (dep_Spec (MakeReceiveAdapter (adapterArgs r src uri))))
        ''iam.amazonaws.com/role'' = None \<and>
      (\<exists>c. pod_Containers (tpl_Spec (ds_Template (dep_Spec
                (MakeReceiveAdapter (adapterArgs r src uri))))) = [c] \<and>
           ctr_VolumeMounts c = [\<lparr>vm_Name = ''aws-credentials'', vm_MountPath = ''/var/secrets/aws''\<rparr>] \<and>
           env_lookup c ''AWS_APPLICATION_CREDENTIALS'' =
             Some (''/var/secrets/aws'' @ ''/'' @ sks_Key (AwsCredsSecret (Spec src))) \<and>
           env_lookup c ''KCL_IAM_ROLE_ARN'' = None)) \<and>
   (\<not> (sks_Name (AwsCredsSecret (Spec src)) \<noteq> [] \<and> sks_Key (AwsCredsSecret (Spec src)) \<noteq> []) \<longrightarrow>
      pod_Volumes (tpl_Spec (ds_Template (dep_Spec (MakeReceiveAdapter (adapterArgs r src uri))))) = [] \<and>
      tpl_Annotations (ds_Template (dep_Spec (MakeReceiveAdapter (adapterArgs r src uri))))
        ''iam.amazonaws.com/role'' = Some (AssignedIAMRole (KIAMOptions (Spec src))) \<and>
      (\<exists>c. pod_Containers (tpl_Spec (ds_Template (dep_Spec
                (MakeReceiveAdapter (adapterArgs r src uri))))) = [c] \<and>
           ctr_VolumeMounts c = [] \<and>
           env_lookup c ''KCL_IAM_ROLE_ARN'' = Some (KCLIAMRoleARN (KIAMOptions (Spec src))) \<and>
           env_lookup c ''AWS_APPLICATION_CREDENTIALS'' = None)) \<and>
   (no_credentials src \<and> \<not> lookup_failed r src \<longrightarrow>
      createReceiveAdapter r src uri =
        (None, Some (Errorf ''Configuration error''), [ListCall (Namespace src)]))"
proof -
  have a: "sks_Name (AwsCredsSecret (Spec src)) \<noteq> [] \<and> sks_Key (AwsCredsSecret (Spec src)) \<noteq> [] \<longrightarrow>
      pod_Volumes (tpl_Spec (ds_Template (dep_Spec (MakeReceiveAdapter (adapterArgs r src uri))))) =
        [\<lparr>vol_Name = ''aws-credentials'', vol_Secret = Some (sks_Name (AwsCredsSecret (Spec src)))\<rparr>] \<and>
      tpl_Annotations (ds_Template (dep_Spec (MakeReceiveAdapter (adapterArgs r src uri))))
        ''iam.amazonaws.com/role'' = None \<and>
      (\<exists>c. pod_Containers (tpl_Spec (ds_Template (dep_Spec
                (MakeReceiveAdapter (adapterArgs r src uri))))) = [c] \<and>
           ctr_VolumeMounts c = [\<lparr>vm_Name = ''aws-credentials'', vm_MountPath = ''/var/secrets/aws''\<rparr>] \<and>
           env_lookup c ''AWS_APPLICATION_CREDENTIALS'' =
             Some (''/var/secrets/aws'' @ ''/'' @ sks_Key (AwsCredsSecret (Spec src))) \<and>
           env_lookup c ''KCL_IAM_ROLE_ARN'' = None)"
    by (simp add: MakeReceiveAdapter_def makeDeploymentSpec_def adapterArgs_def env_lookup_def Let_def)
  have b: "\<not> (sks_Name (AwsCredsSecret (Spec src)) \<noteq> [] \<and> sks_Key (AwsCredsSecret (Spec src)) \<noteq> []) \<longrightarrow>
      pod_Volumes (tpl_Spec (ds_Template (dep_Spec (MakeReceiveAdapter (adapterArgs r src uri))))) = [] \<and>
      tpl_Annotations (ds_Template (dep_Spec (MakeReceiveAdapter (adapterArgs r src uri))))
        ''iam.amazonaws.com/role'' = Some (AssignedIAMRole (KIAMOptions (Spec src))) \<and>
      (\<exists>c. pod_Containers (tpl_Spec (ds_Template (dep_Spec
                (MakeReceiveAdapter (adapterArgs r src uri))))) = [c] \<and>
           ctr_VolumeMounts c = [] \<and>
           env_lookup c ''KCL_IAM_ROLE_ARN'' = Some (KCLIAMRoleARN (KIAMOptions (Spec src))) \<and>
           env_lookup c ''AWS_APPLICATION_CREDENTIALS'' = None)"
    by (simp add: MakeReceiveAdapter_def makeDeploymentSpec_def adapterArgs_def env_lookup_def Let_def)
  have c: "no_credentials src \<and> \<not> lookup_failed r src \<longrightarrow>
      createReceiveAdapter r src uri =
        (None, Some (Errorf ''Configuration error''), [ListCall (Namespace src)])"
    using createReceiveAdapter_no_credentials [of src r uri] by blast
  from a b c show ?thesis by blast
qed

theorem workload_credentials_witness:
  "sks_Name (AwsCredsSecret (Spec test_getSource)) \<noteq> [] \<and>
   sks_Key (AwsCredsSecret (Spec test_getSource)) \<noteq> [] \<and>
   pod_Volumes (tpl_Spec (ds_Template (dep_Spec (MakeReceiveAdapter
      (adapterArgs (test_reconciler (Inr addressableURI) (Inr [])) test_getSource addressableURI))))) =
     [\<lparr>vol_Name = ''aws-credentials'', vol_Secret = Some ''kinesis-secret-name''\<rparr>] \<and>
   \<not> (sks_Name (AwsCredsSecret (Spec test_kiamSource)) \<noteq> [] \<and>
      sks_Key (AwsCredsSecret (Spec test_kiamSource)) \<noteq> []) \<and>
   pod_Volumes (tpl_Spec (ds_Template (dep_Spec (MakeReceiveAdapter
      (adapterArgs (test_reconciler (Inr addressableURI) (Inr [])) test_kiamSource addressableURI))))) = [] \<and>
   tpl_Annotations (ds_Template (dep_Spec (MakeReceiveAdapter
      (adapterArgs (test_reconciler (Inr addressableURI) (Inr [])) test_kiamSource addressableURI))))
      ''iam.amazonaws.com/role'' = Some ''assigned-role'' \<and>
   no_credentials test_bareSource \<and>
   \<not> lookup_failed (test_reconciler (Inr addressableURI) (Inr [])) test_bareSource \<and>
   createReceiveAdapter (test_reconciler (Inr addressableURI) (Inr [])) test_bareSource addressableURI =
     (None, Some (Errorf ''Configuration error''), [ListCall ''testnamespace''])"
proof -
  let ?r = "test_reconciler (Inr addressableURI) (Inr [])"
  have h1: "sks_Name (AwsCredsSecret (Spec test_getSource)) \<noteq> [] \<and>
            sks_Key (AwsCredsSecret (Spec test_getSource)) \<noteq> []"
    by (simp add: test_getSource_def)
  have h2: "\<not> (sks_Name (AwsCredsSecret (Spec test_kiamSource)) \<noteq> [] \<and>
               sks_Key (AwsCredsSecret (Spec test_kiamSource)) \<noteq> [])"
    by (simp add: test_kiamSource_def)
  have h3: "no_credentials test_bareSource"
    by (simp add: test_bareSource_def test_getSource_def no_credentials_def)
  have h4: "\<not> lookup_failed ?r test_bareSource"
    by (simp add: lookup_failed_iff test_reconciler_def)
  have v: "sks_Name (AwsCredsSecret (Spec test_getSource)) = ''kinesis-secret-name''"
    "AssignedIAMRole (KIAMOptions (Spec test_kiamSource)) = ''assigned-role''"
    "Namespace test_bareSource = ''testnamespace''"
    by (simp_all add: test_getSource_def test_kiamSource_def test_bareSource_def)
  show ?thesis
    using workload_credentials [of test_getSource ?r addressableURI]
      workload_credentials [of test_kiamSource ?r addressableURI]
      workload_credentials [of test_bareSource ?r addressableURI]
      h1 h2 h3 h4
    by (simp add: v)
qed

text \<open>
  C6 as stated fails for a Source that has a role configuration and a secret reference as
  well, which the code accepts: for \<open>getSource()\<close> (the configuration of
  \<open>TestMakeReceiveAdapterCredential\<close>) the assigned role and the role ARN are set, yet the
  workload carries the credential volume, has no role annotation and does not set
  \<open>KCL_IAM_ROLE_ARN\<close>.
\<close>

theorem role_with_secret_counterexample:
  "AssignedIAMRole (KIAMOptions (Spec test_getSource)) = ''ASSIGNED-IAM-ROLE'' \<and>
   KCLIAMRoleARN (KIAMOptions (Spec test_getSource)) = ''ROLE-ARN'' \<and>
   pod_Volumes (tpl_Spec (ds_Template (dep_Spec (MakeReceiveAdapter
      (adapterArgs (test_reconciler (Inr addressableURI) (Inr [])) test_getSource addressableURI))))) =
     [\<lparr>vol_Name = ''aws-credentials'', vol_Secret = Some ''kinesis-secret-name''\<rparr>] \<and>
   tpl_Annotations (ds_Template (dep_Spec (MakeReceiveAdapter
      (adapterArgs (test_reconciler (Inr addressableURI) (Inr [])) test_getSource addressableURI))))
      ''iam.amazonaws.com/role'' = None \<and>
   map env_Name (concat (map ctr_Env (pod_Containers (tpl_Spec (ds_Template (dep_Spec
      (MakeReceiveAdapter (adapterArgs (test_reconciler (Inr addressableURI) (Inr []))
         test_getSource addressableURI)))))))) =
     [''AWS_APPLICATION_CREDENTIALS'', ''STREAM_NAME'', ''REGION'', ''SINK_URI'', ''CONSUMER_NAME'']"
  by (simp add: fixture_defs MakeReceiveAdapter_def makeDeploymentSpec_def adapterArgs_def Let_def)

subsection \<open>Agreement with the tests of the builder and of the controller\<close>

text \<open>
  The pod specs expected by \<open>TestMakeReceiveAdapterCredential\<close> and
  \<open>TestMakeReceiveAdapterKiam\<close> (with the names of those tests' Sources).
\<close>

lemma test_MakeReceiveAdapterCredential:
  "tpl_Spec (ds_Template (dep_Spec (MakeReceiveAdapter
      \<lparr>args_Image = ''test-image'',
       args_Source = test_getSource\<lparr>Name := ''source-name'', Namespace := ''source-namespace''\<rparr>,
       args_Labels = [''test-key1'' \<mapsto> ''test-value1'', ''test-key2'' \<mapsto> ''test-value2''],
       args_SinkURI = ''sink-uri''\<rparr>))) =
   \<lparr>pod_ServiceAccountName = ''source-svc-acct'',
    pod_Containers =
      [\<lparr>ctr_Name = ''receive-adapter'', ctr_Image = ''test-image'',
        ctr_Env =
          [\<lparr>env_Name = ''AWS_APPLICATION_CREDENTIALS'', env_Value = ''/var/secrets/aws/aws-secret-key''\<rparr>,
           \<lparr>env_Name = ''STREAM_NAME'', env_Value = ''kinesis-name''\<rparr>,
           \<lparr>env_Name = ''REGION'', env_Value = ''us-west-2''\<rparr>,
           \<lparr>env_Name = ''SINK_URI'', env_Value = ''sink-uri''\<rparr>,
           \<lparr>env_Name = ''CONSUMER_NAME'', env_Value = ''source-name''\<rparr>],
        ctr_VolumeMounts = [\<lparr>vm_Name = ''aws-credentials'', vm_MountPath = ''/var/secrets/aws''\<rparr>]\<rparr>],
    pod_Volumes = [\<lparr>vol_Name = ''aws-credentials'', vol_Secret = Some ''kinesis-secret-name''\<rparr>]\<rparr>"
  by (simp add: fixture_defs MakeReceiveAdapter_def makeDeploymentSpec_def Let_def)

lemma test_MakeReceiveAdapterKiam:
  "tpl_Spec (ds_Template (dep_Spec (MakeReceiveAdapter
      \<lparr>args_Image = ''test-image'', args_Source = test_kiamSource,
       args_Labels = [''test-key1'' \<mapsto> ''test-value1'', ''test-key2'' \<mapsto> ''test-value2''],
       args_SinkURI = ''sink-uri''\<rparr>))) =
   \<lparr>pod_ServiceAccountName = ''source-svc-acct'',
    pod_Containers =
      [\<lparr>ctr_Name = ''receive-adapter'', ctr_Image = ''test-image'',
        ctr_Env =
          [\<lparr>env_Name = ''STREAM_NAME'', env_Value = ''kinesis-name''\<rparr>,
           \<lparr>env_Name = ''KCL_IAM_ROLE_ARN'', env_Value = ''kcl-role''\<rparr>,
           \<lparr>env_Name = ''REGION'', env_Value = ''us-west-2''\<rparr>,
           \<lparr>env_Name = ''SINK_URI'', env_Value = ''sink-uri''\<rparr>,
           \<lparr>env_Name = ''CONSUMER_NAME'', env_Value = ''source-name''\<rparr>],
        ctr_VolumeMounts = []\<rparr>],
    pod_Volumes = []\<rparr>"
  by (simp add: fixture_defs MakeReceiveAdapter_def makeDeploymentSpec_def Let_def)


end
